theory Spec2Isabelle
  imports Complex_Main "HOL-Library.Word"
begin

unbundle bit_operations_syntax

section \<open>Declarations of vctcxo\_tamer.h and generated/soc.h\<close>

text \<open>
  The firmware consists of \<^verbatim>\<open>vctcxo_tamer.c\<close> (the peripheral driver and the
  interrupt handler) and \<^verbatim>\<open>main.c\<close> (the control loop with the calibration state
  machine). Both include \<^verbatim>\<open>vctcxo_tamer.h\<close>, whose macros and types are declared
  here.
\<close>

type_synonym u8 = "8 word"
type_synonym u16 = "16 word"
type_synonym i32 = "32 word"

text \<open>
  The register addresses \<^verbatim>\<open>VT_*_ADDR\<close> and the build constant
  \<^verbatim>\<open>CONFIG_DAC_MAX\<close> are parameters of the model. \<open>lroundf_unspecified\<close> is the
  value that the C library's \<^verbatim>\<open>lroundf\<close> returns for an argument whose rounded value
  does not fit the 32-bit \<^verbatim>\<open>long\<close> of the target: the C standard leaves that value
  unspecified.
\<close>

record vt_config =
  VT_CTRL_ADDR :: u8
  VT_STAT_ADDR :: u8
  VT_ERR_1S_ADDR :: u8
  VT_ERR_10S_ADDR :: u8
  VT_ERR_100S_ADDR :: u8
  VT_DAC_TUNNED_VAL_ADDR0 :: u8
  VT_DAC_TUNNED_VAL_ADDR1 :: u8
  VT_STATE_ADDR :: u8
  CONFIG_DAC_MAX :: int
  lroundf_unspecified :: "rat \<Rightarrow> i32"

text \<open>
  Modelled from the spec: the bit masks of the control register, which the header
  defines. The spec gives bit 0 = counter reset, bit 1 = interrupt enable, bit 2 =
  interrupt clear, bits 6-7 = tune mode.
\<close>

definition VT_CTRL_RESET :: u8 where
  "VT_CTRL_RESET = 0x01"

definition VT_CTRL_IRQ_EN :: u8 where
  "VT_CTRL_IRQ_EN = 0x02"

definition VT_CTRL_IRQ_CLR :: u8 where
  "VT_CTRL_IRQ_CLR = 0x04"

definition VT_CTRL_TUNE_MODE :: u8 where
  "VT_CTRL_TUNE_MODE = 0xC0"

text \<open>
  Modelled from the spec: the bit masks of the status register, one bit per window
  in the order short, medium, long.
\<close>

definition VT_STAT_ERR_1S :: u8 where
  "VT_STAT_ERR_1S = 0x01"

definition VT_STAT_ERR_10S :: u8 where
  "VT_STAT_ERR_10S = 0x02"

definition VT_STAT_ERR_100S :: u8 where
  "VT_STAT_ERR_100S = 0x04"

text \<open>
  Modelled from the spec: the enumeration \<^verbatim>\<open>vctcxo_tamer_mode\<close> (0 = disabled,
  1 = 1-pulse-per-second, 2 = 10 MHz). A C enumeration is an integer, so a caller can
  pass any other value.
\<close>

type_synonym vctcxo_tamer_mode = "32 word"

definition VCTCXO_TAMER_DISABLED :: vctcxo_tamer_mode where
  "VCTCXO_TAMER_DISABLED = 0"

definition VCTCXO_TAMER_1_PPS :: vctcxo_tamer_mode where
  "VCTCXO_TAMER_1_PPS = 1"

definition VCTCXO_TAMER_10_MHZ :: vctcxo_tamer_mode where
  "VCTCXO_TAMER_10_MHZ = 2"

text \<open>
  Modelled from the spec: \<^verbatim>\<open>struct vctcxo_tamer_pkt_buf\<close>, three signed 32-bit
  error counts, three window flags and the ready flag. The fields are the ones the
  interrupt handler assigns.
\<close>

record vctcxo_tamer_pkt_buf =
  ready :: bool
  pps_1s_error :: i32
  pps_10s_error :: i32
  pps_100s_error :: i32
  pps_1s_error_flag :: bool
  pps_10s_error_flag :: bool
  pps_100s_error_flag :: bool

text \<open>
  Modelled from the spec: \<^verbatim>\<open>point_t\<close> and \<^verbatim>\<open>line_t\<close>. A point is a
  (measured error, trim code) pair: \<open>x\<close> is assigned from the signed 32-bit error
  count and \<open>y\<close> from the 16-bit trim code. The line also holds the
  single-precision slope and the 16-bit y-intercept that \<^verbatim>\<open>main\<close> passes to
  \<^verbatim>\<open>vctcxo_trim_dac_write\<close>. A slope is represented by the rational value of
  the finite binary32 number.
\<close>

record point_t =
  point_x :: i32
  point_y :: u16

record line_t =
  point0 :: point_t
  point1 :: point_t
  slope :: rat
  y_intercept :: u16

text \<open>Modelled from the spec: \<^verbatim>\<open>state_t\<close>, the four calibration phases.\<close>

datatype state_t = COARSE_TUNE_MIN | COARSE_TUNE_MAX | COARSE_TUNE_DONE | FINE_TUNE

section \<open>State of the firmware\<close>

text \<open>
  The globals of both files, the locals of \<^verbatim>\<open>main\<close> that live across loop
  iterations, and the log of the register writes issued so far (oldest first), each
  an (address, byte) pair handed to \<^verbatim>\<open>vctcxo_tamer_write\<close>.
\<close>

record fw_state =
  vctcxo_tamer_ctrl_reg :: u8
  vctcxo_trim_dac_value :: u16
  vctcxo_tamer_pkt :: vctcxo_tamer_pkt_buf
  trimdac_cal_line :: line_t
  tune_state :: state_t
  vctcxo_tamer_en :: u8
  vctcxo_tamer_en_old :: u8
  hw_writes :: "(u8 \<times> u8) list"

section \<open>vctcxo\_tamer.c\<close>

text \<open>
  \<^verbatim>\<open>vctcxo_tamer_read\<close> returns what the hardware holds at the address; the
  register contents are an input \<open>hw\<close> of the functions that read.
\<close>

definition vctcxo_tamer_read :: "(u8 \<Rightarrow> u8) \<Rightarrow> u8 \<Rightarrow> u8" where
  "vctcxo_tamer_read hw addr = hw addr"

definition vctcxo_tamer_write :: "u8 \<Rightarrow> u8 \<Rightarrow> fw_state \<Rightarrow> fw_state" where
  "vctcxo_tamer_write addr data s = s\<lparr>hw_writes := hw_writes s @ [(addr, data)]\<rparr>"

definition vctcxo_tamer_reset_counters :: "vt_config \<Rightarrow> bool \<Rightarrow> fw_state \<Rightarrow> fw_state" where
  "vctcxo_tamer_reset_counters cfg reset s =
     (let s1 = (if reset
                then s\<lparr>vctcxo_tamer_ctrl_reg := vctcxo_tamer_ctrl_reg s OR VT_CTRL_RESET\<rparr>
                else s\<lparr>vctcxo_tamer_ctrl_reg := vctcxo_tamer_ctrl_reg s AND NOT VT_CTRL_RESET\<rparr>)
      in vctcxo_tamer_write (VT_CTRL_ADDR cfg) (vctcxo_tamer_ctrl_reg s1) s1)"

definition vctcxo_tamer_enable_isr :: "vt_config \<Rightarrow> bool \<Rightarrow> fw_state \<Rightarrow> fw_state" where
  "vctcxo_tamer_enable_isr cfg enable s =
     (let s1 = (if enable
                then s\<lparr>vctcxo_tamer_ctrl_reg := vctcxo_tamer_ctrl_reg s OR VT_CTRL_IRQ_EN\<rparr>
                else s\<lparr>vctcxo_tamer_ctrl_reg := vctcxo_tamer_ctrl_reg s AND NOT VT_CTRL_IRQ_EN\<rparr>)
      in vctcxo_tamer_write (VT_CTRL_ADDR cfg) (vctcxo_tamer_ctrl_reg s1) s1)"

definition vctcxo_tamer_clear_isr :: "vt_config \<Rightarrow> fw_state \<Rightarrow> fw_state" where
  "vctcxo_tamer_clear_isr cfg s =
     vctcxo_tamer_write (VT_CTRL_ADDR cfg) (vctcxo_tamer_ctrl_reg s OR VT_CTRL_IRQ_CLR) s"

text \<open>
  The first \<^verbatim>\<open>switch\<close> returns on any value other than the three modes. The mode
  is cast to \<^verbatim>\<open>uint8_t\<close> before the shift, and the compound assignment keeps
  the low eight bits.
\<close>

definition vctcxo_tamer_set_tune_mode :: "vt_config \<Rightarrow> vctcxo_tamer_mode \<Rightarrow> fw_state \<Rightarrow> fw_state" where
  "vctcxo_tamer_set_tune_mode cfg mode s =
     (if mode = VCTCXO_TAMER_DISABLED \<or> mode = VCTCXO_TAMER_1_PPS \<or> mode = VCTCXO_TAMER_10_MHZ
      then
        let s1 = vctcxo_tamer_enable_isr cfg False s;
            s2 = s1\<lparr>vctcxo_tamer_ctrl_reg := vctcxo_tamer_ctrl_reg s1 AND NOT VT_CTRL_TUNE_MODE\<rparr>;
            s3 = s2\<lparr>vctcxo_tamer_ctrl_reg :=
                      vctcxo_tamer_ctrl_reg s2 OR push_bit 6 (ucast mode :: u8)\<rparr>;
            s4 = vctcxo_tamer_write (VT_CTRL_ADDR cfg) (vctcxo_tamer_ctrl_reg s3) s3;
            s5 = vctcxo_tamer_reset_counters cfg True s4;
            s6 = (if mode \<noteq> 0 then vctcxo_tamer_reset_counters cfg False s5 else s5)
        in (if mode = VCTCXO_TAMER_1_PPS \<or> mode = VCTCXO_TAMER_10_MHZ
            then vctcxo_tamer_enable_isr cfg True s6
            else s6)
      else s)"

text \<open>
  Four byte reads at consecutive addresses (the \<^verbatim>\<open>uint8_t\<close> offset wraps at 256),
  assembled least significant byte first.
\<close>

definition vctcxo_tamer_read_count :: "(u8 \<Rightarrow> u8) \<Rightarrow> u8 \<Rightarrow> i32" where
  "vctcxo_tamer_read_count hw addr =
     push_bit 0 (ucast (vctcxo_tamer_read hw addr) :: i32)
     OR push_bit 8 (ucast (vctcxo_tamer_read hw (addr + 1)) :: i32)
     OR push_bit 16 (ucast (vctcxo_tamer_read hw (addr + 2)) :: i32)
     OR push_bit 24 (ucast (vctcxo_tamer_read hw (addr + 3)) :: i32)"

definition vctcxo_trim_dac_write :: "vt_config \<Rightarrow> u16 \<Rightarrow> fw_state \<Rightarrow> fw_state" where
  "vctcxo_trim_dac_write cfg val s =
     (let s1 = s\<lparr>vctcxo_trim_dac_value := val\<rparr>;
          tuned_val_lsb = (ucast (drop_bit 0 (val AND 0x00FF)) :: u8);
          tuned_val_msb = (ucast (drop_bit 8 (val AND 0xFF00)) :: u8);
          s2 = vctcxo_tamer_write (VT_DAC_TUNNED_VAL_ADDR0 cfg) tuned_val_lsb s1
      in vctcxo_tamer_write (VT_DAC_TUNNED_VAL_ADDR1 cfg) tuned_val_msb s2)"

definition vctcxo_tamer_isr :: "vt_config \<Rightarrow> (u8 \<Rightarrow> u8) \<Rightarrow> fw_state \<Rightarrow> fw_state" where
  "vctcxo_tamer_isr cfg hw s =
     (let s1 = vctcxo_tamer_enable_isr cfg False s;
          s2 = vctcxo_tamer_reset_counters cfg True s1;
          e1 = vctcxo_tamer_read_count hw (VT_ERR_1S_ADDR cfg);
          e10 = vctcxo_tamer_read_count hw (VT_ERR_10S_ADDR cfg);
          e100 = vctcxo_tamer_read_count hw (VT_ERR_100S_ADDR cfg);
          error_status = vctcxo_tamer_read hw (VT_STAT_ADDR cfg);
          s3 = s2\<lparr>vctcxo_tamer_pkt := (vctcxo_tamer_pkt s2)
                 \<lparr>pps_1s_error := e1, pps_10s_error := e10, pps_100s_error := e100,
                  pps_1s_error_flag := (error_status AND VT_STAT_ERR_1S \<noteq> 0),
                  pps_10s_error_flag := (error_status AND VT_STAT_ERR_10S \<noteq> 0),
                  pps_100s_error_flag := (error_status AND VT_STAT_ERR_100S \<noteq> 0)\<rparr>\<rparr>;
          s4 = vctcxo_tamer_clear_isr cfg s3
      in s4\<lparr>vctcxo_tamer_pkt := (vctcxo_tamer_pkt s4)\<lparr>ready := True\<rparr>\<rparr>)"

definition vctcxo_tamer_init :: "vt_config \<Rightarrow> fw_state \<Rightarrow> fw_state" where
  "vctcxo_tamer_init cfg s =
     vctcxo_tamer_set_tune_mode cfg VCTCXO_TAMER_1_PPS
       (vctcxo_tamer_write (VT_STATE_ADDR cfg) 0x00 s)"

definition vctcxo_tamer_dis :: "vt_config \<Rightarrow> fw_state \<Rightarrow> fw_state" where
  "vctcxo_tamer_dis cfg s =
     vctcxo_tamer_write (VT_STATE_ADDR cfg) 0x00
       (vctcxo_tamer_set_tune_mode cfg VCTCXO_TAMER_DISABLED s)"

section \<open>Single-precision arithmetic\<close>

text \<open>
  A \<^verbatim>\<open>float\<close> is represented by the rational number it denotes. Every operation
  computes the exact result and rounds it to the nearest number with a 24-bit
  significand, ties to even (IEEE 754 binary32, round to nearest). The firmware only
  divides a 17-bit integer by a non-zero 32-bit integer and multiplies such a quotient
  by a 32-bit integer, so no operation of the program overflows to infinity or produces
  a NaN; a value of magnitude \<open>2 ^ 128\<close> or more would stand for an infinity, which
  \<^verbatim>\<open>lroundf\<close> treats like every other value outside the range of \<^verbatim>\<open>long\<close>.
\<close>

fun bit_length :: "nat \<Rightarrow> nat" where
  "bit_length n = (if n = 0 then 0 else Suc (bit_length (n div 2)))"

declare bit_length.simps [simp del]

text \<open>The exponent of a positive rational: \<open>2 ^ e \<le> q < 2 ^ (e + 1)\<close>.\<close>

definition floor_log2 :: "rat \<Rightarrow> int" where
  "floor_log2 q = (if 1 \<le> q then int (bit_length (nat \<lfloor>q\<rfloor>)) - 1
                   else - int (bit_length (nat (\<lceil>1 / q\<rceil> - 1))))"

definition round_half_even :: "rat \<Rightarrow> int" where
  "round_half_even r =
     (let f = \<lfloor>r\<rfloor>; d = r - of_int f
      in if d < 1 / 2 then f else if 1 / 2 < d then f + 1 else if even f then f else f + 1)"

definition binary32_round :: "rat \<Rightarrow> rat" where
  "binary32_round q =
     (if q = 0 then 0
      else let e = max (floor_log2 \<bar>q\<bar>) (- 126);
               ulp = 2 powi (e - 23)
           in of_int (round_half_even (q / ulp)) * ulp)"

text \<open>The conversion \<^verbatim>\<open>(float)i\<close> of an integer, the product and the quotient.\<close>

definition float_of_int :: "int \<Rightarrow> rat" where
  "float_of_int i = binary32_round (of_int i)"

definition fmul :: "rat \<Rightarrow> rat \<Rightarrow> rat" where
  "fmul a b = binary32_round (a * b)"

definition fdiv :: "rat \<Rightarrow> rat \<Rightarrow> rat" where
  "fdiv a b = binary32_round (a / b)"

text \<open>
  \<^verbatim>\<open>lroundf\<close> rounds to the nearest integer, halfway cases away from zero. The
  target is a 32-bit RISC-V core, whose \<^verbatim>\<open>long\<close> has 32 bits; when the rounded
  value does not fit, the result is the unspecified value of the configuration.
\<close>

definition lround_away :: "rat \<Rightarrow> int" where
  "lround_away v = (if 0 \<le> v then \<lfloor>v + 1 / 2\<rfloor> else - \<lfloor>- v + 1 / 2\<rfloor>)"

definition lroundf :: "vt_config \<Rightarrow> rat \<Rightarrow> i32" where
  "lroundf cfg v =
     (let r = lround_away v
      in if - (2 ^ 31) \<le> r \<and> r < 2 ^ 31 then word_of_int r else lroundf_unspecified cfg v)"

text \<open>
  C's integer division truncates towards zero. It is undefined for the divisor 0, where
  \<open>c_div\<close> is 0; the firmware divides by the scales 1, 10 and 100 only, and nothing is
  claimed for any other divisor.
\<close>

definition c_div :: "int \<Rightarrow> int \<Rightarrow> int" where
  "c_div a b = sgn a * sgn b * (\<bar>a\<bar> div \<bar>b\<bar>)"

section \<open>main.c\<close>

definition VCTCXO_DEFAULT_DAC_VALUE :: u16 where
  "VCTCXO_DEFAULT_DAC_VALUE = 0x77FA"

definition trimdac_min :: u16 where
  "trimdac_min = 0x0000"

definition trimdac_max :: "vt_config \<Rightarrow> u16" where
  "trimdac_max cfg = word_of_int (CONFIG_DAC_MAX cfg)"

text \<open>
  \<^verbatim>\<open>adjust_trim_dac\<close>: the subtraction is done in \<^verbatim>\<open>int32_t\<close>, modelled with
  two's complement wrap-around; the comparisons of the clamp are signed. The firmware
  calls it with the scales 1, 10 and 100 only.
\<close>

definition adjust_trim_dac :: "vt_config \<Rightarrow> i32 \<Rightarrow> rat \<Rightarrow> int \<Rightarrow> fw_state \<Rightarrow> fw_state" where
  "adjust_trim_dac cfg error slp scale s =
     (let new_value = (ucast (vctcxo_trim_dac_value s) :: i32) -
            word_of_int (c_div (sint (lroundf cfg (fmul (float_of_int (sint error)) slp))) scale);
          new_value = (if CONFIG_DAC_MAX cfg < sint new_value then word_of_int (CONFIG_DAC_MAX cfg)
                       else if sint new_value < 0 then 0
                       else new_value);
          s1 = s\<lparr>vctcxo_trim_dac_value := (ucast new_value :: u16)\<rparr>
      in vctcxo_trim_dac_write cfg (vctcxo_trim_dac_value s1) s1)"

text \<open>
  The two-point line computation of the \<^verbatim>\<open>COARSE_TUNE_DONE\<close> case (the
  \<^verbatim>\<open>if\<close>/\<^verbatim>\<open>else\<close> on the difference of the x coordinates). The x coordinates
  are subtracted in \<^verbatim>\<open>int32_t\<close>, the y coordinates after promotion to
  \<^verbatim>\<open>int\<close>; the result of \<^verbatim>\<open>lroundf\<close> is cast to \<^verbatim>\<open>uint16_t\<close> and the
  difference is stored into the 16-bit y-intercept.
\<close>

definition coarse_tune_done_line :: "vt_config \<Rightarrow> line_t \<Rightarrow> line_t" where
  "coarse_tune_done_line cfg l =
     (if point_x (point1 l) - point_x (point0 l) \<noteq> 0
      then
        let l1 = l\<lparr>slope :=
                   fdiv (float_of_int (uint (point_y (point1 l)) - uint (point_y (point0 l))))
                        (float_of_int (sint (point_x (point1 l) - point_x (point0 l))))\<rparr>
        in l1\<lparr>y_intercept :=
                point_y (point0 l1) -
                (ucast (lroundf cfg (fmul (slope l1) (float_of_int (sint (point_x (point0 l1)))))) :: u16)\<rparr>
      else l\<lparr>y_intercept := VCTCXO_DEFAULT_DAC_VALUE\<rparr>)"

text \<open>The body of \<^verbatim>\<open>switch (tune_state)\<close>, one equation per case.\<close>

fun tune_state_case :: "vt_config \<Rightarrow> state_t \<Rightarrow> fw_state \<Rightarrow> fw_state" where
  "tune_state_case cfg COARSE_TUNE_MIN s =
     (let s1 = vctcxo_trim_dac_write cfg trimdac_min s;
          s2 = vctcxo_tamer_reset_counters cfg True s1
      in s2\<lparr>tune_state := COARSE_TUNE_MAX\<rparr>)"
| "tune_state_case cfg COARSE_TUNE_MAX s =
     (let l = trimdac_cal_line s;
          s1 = s\<lparr>trimdac_cal_line :=
                   l\<lparr>point0 := (point0 l)\<lparr>point_x := pps_1s_error (vctcxo_tamer_pkt s)\<rparr>\<rparr>\<rparr>;
          s2 = vctcxo_trim_dac_write cfg (trimdac_max cfg) s1;
          s3 = vctcxo_tamer_reset_counters cfg True s2
      in s3\<lparr>tune_state := COARSE_TUNE_DONE\<rparr>)"
| "tune_state_case cfg COARSE_TUNE_DONE s =
     (let s1 = vctcxo_tamer_write (VT_STATE_ADDR cfg) 0x01 s;
          l = trimdac_cal_line s1;
          l1 = l\<lparr>point1 := (point1 l)\<lparr>point_x := pps_1s_error (vctcxo_tamer_pkt s1)\<rparr>\<rparr>;
          s2 = s1\<lparr>trimdac_cal_line := coarse_tune_done_line cfg l1\<rparr>;
          s3 = vctcxo_trim_dac_write cfg (y_intercept (trimdac_cal_line s2)) s2
      in s3\<lparr>tune_state := FINE_TUNE\<rparr>)"
| "tune_state_case cfg FINE_TUNE s =
     (let pkt = vctcxo_tamer_pkt s
      in if pps_1s_error_flag pkt
         then adjust_trim_dac cfg (pps_1s_error pkt) (slope (trimdac_cal_line s)) 1 s
         else if pps_10s_error_flag pkt
         then adjust_trim_dac cfg (pps_10s_error pkt) (slope (trimdac_cal_line s)) 10 s
         else if pps_100s_error_flag pkt
         then adjust_trim_dac cfg (pps_100s_error pkt) (slope (trimdac_cal_line s)) 100 s
         else s)"

text \<open>The block \<^verbatim>\<open>if (vctcxo_tamer_pkt.ready) { ... }\<close> of the main loop.\<close>

definition calibration_fsm :: "vt_config \<Rightarrow> fw_state \<Rightarrow> fw_state" where
  "calibration_fsm cfg s =
     (if ready (vctcxo_tamer_pkt s)
      then
        let s1 = s\<lparr>vctcxo_tamer_pkt := (vctcxo_tamer_pkt s)\<lparr>ready := False\<rparr>\<rparr>;
            s2 = tune_state_case cfg (tune_state s1) s1;
            s3 = vctcxo_tamer_reset_counters cfg False s2
        in vctcxo_tamer_enable_isr cfg True s3
      else s)"

text \<open>The block \<^verbatim>\<open>if (vctcxo_tamer_en_old != vctcxo_tamer_en) { ... }\<close>.\<close>

definition enable_edge :: "vt_config \<Rightarrow> fw_state \<Rightarrow> fw_state" where
  "enable_edge cfg s =
     (if vctcxo_tamer_en_old s \<noteq> vctcxo_tamer_en s
      then
        if vctcxo_tamer_en s = 0x01
        then
          let s1 = vctcxo_tamer_init cfg s;
              s2 = s1\<lparr>tune_state := COARSE_TUNE_MIN\<rparr>
          in s2\<lparr>vctcxo_tamer_pkt := (vctcxo_tamer_pkt s2)\<lparr>ready := True\<rparr>\<rparr>
        else
          let s1 = vctcxo_tamer_dis cfg s;
              s2 = s1\<lparr>tune_state := COARSE_TUNE_MIN\<rparr>
          in s2\<lparr>vctcxo_tamer_pkt := (vctcxo_tamer_pkt s2)\<lparr>ready := False\<rparr>\<rparr>
      else s)"

text \<open>
  What one iteration of the main loop reads: the value of the status CSR
  (\<^verbatim>\<open>vctcxo_tamer_status_read\<close>, generated code) and the contents of the tamer's
  registers during the iteration.
\<close>

record loop_input =
  vctcxo_tamer_status :: "32 word"
  hw_regs :: "u8 \<Rightarrow> u8"

definition main_loop_body :: "vt_config \<Rightarrow> loop_input \<Rightarrow> fw_state \<Rightarrow> fw_state" where
  "main_loop_body cfg inp s =
     (let s1 = s\<lparr>vctcxo_tamer_en_old := vctcxo_tamer_en s\<rparr>;
          s2 = s1\<lparr>vctcxo_tamer_en := ucast (vctcxo_tamer_status inp AND 1)\<rparr>;
          s3 = (if vctcxo_tamer_read (hw_regs inp) (VT_STAT_ADDR cfg) \<noteq> 0
                then vctcxo_tamer_isr cfg (hw_regs inp) s2
                else s2);
          s4 = enable_edge cfg s3
      in calibration_fsm cfg s4)"

text \<open>
  The state at the first iteration: zero-initialised globals, the assignments before
  the loop and the write of the default trim code.
\<close>

definition main_init :: "vt_config \<Rightarrow> fw_state" where
  "main_init cfg =
     vctcxo_trim_dac_write cfg VCTCXO_DEFAULT_DAC_VALUE
       \<lparr>vctcxo_tamer_ctrl_reg = 0,
        vctcxo_trim_dac_value = 0,
        vctcxo_tamer_pkt = \<lparr>ready = False, pps_1s_error = 0, pps_10s_error = 0,
          pps_100s_error = 0, pps_1s_error_flag = False, pps_10s_error_flag = False,
          pps_100s_error_flag = False\<rparr>,
        trimdac_cal_line = \<lparr>point0 = \<lparr>point_x = 0, point_y = trimdac_min\<rparr>,
          point1 = \<lparr>point_x = 0, point_y = trimdac_max cfg\<rparr>, slope = 0, y_intercept = 0\<rparr>,
        tune_state = COARSE_TUNE_MIN,
        vctcxo_tamer_en = 0,
        vctcxo_tamer_en_old = 0,
        hw_writes = []\<rparr>"

text \<open>
  \<^verbatim>\<open>while (1)\<close> never returns; \<open>main_loop\<close> runs the iterations for which inputs
  are given.
\<close>

fun main_loop :: "vt_config \<Rightarrow> loop_input list \<Rightarrow> fw_state \<Rightarrow> fw_state" where
  "main_loop cfg [] s = s"
| "main_loop cfg (inp # inps) s = main_loop cfg inps (main_loop_body cfg inp s)"

section \<open>The formulas of the specification\<close>

text \<open>
  The two-point line and the proportional correction as the specification words them,
  over the rationals with exact division and multiplication. For ``round'' they use
  the rounding of \<^verbatim>\<open>lroundf\<close> and for ``integer division'' the truncating division of
  C, the readings closest to the code.
\<close>

definition spec_slope :: "point_t \<Rightarrow> point_t \<Rightarrow> rat" where
  "spec_slope p0 p1 =
     (of_int (uint (point_y p1)) - of_int (uint (point_y p0))) /
     (of_int (sint (point_x p1)) - of_int (sint (point_x p0)))"

definition spec_y_intercept :: "point_t \<Rightarrow> point_t \<Rightarrow> int" where
  "spec_y_intercept p0 p1 =
     uint (point_y p0) - lround_away (spec_slope p0 p1 * of_int (sint (point_x p0)))"

definition spec_clamp :: "int \<Rightarrow> int \<Rightarrow> int" where
  "spec_clamp dac_max v = max 0 (min dac_max v)"

definition spec_new_code :: "int \<Rightarrow> int \<Rightarrow> int \<Rightarrow> rat \<Rightarrow> int \<Rightarrow> int" where
  "spec_new_code dac_max current_trim_code e slp window_length =
     spec_clamp dac_max (current_trim_code - c_div (lround_away (of_int e * slp)) window_length)"

text \<open>The order of the phases in the specification's transition table.\<close>

fun phase_successor :: "state_t \<Rightarrow> state_t" where
  "phase_successor COARSE_TUNE_MIN = COARSE_TUNE_MAX"
| "phase_successor COARSE_TUNE_MAX = COARSE_TUNE_DONE"
| "phase_successor COARSE_TUNE_DONE = FINE_TUNE"
| "phase_successor FINE_TUNE = FINE_TUNE"

section \<open>A configuration and states for evaluation\<close>

text \<open>
  The configuration of the specification's example scenarios (\<open>DacMax = 65535\<close>), with
  pairwise distinct register addresses and an \<^verbatim>\<open>lroundf\<close> that saturates outside the
  range of \<^verbatim>\<open>long\<close>.
\<close>

definition example_config :: vt_config where
  "example_config =
     \<lparr>VT_CTRL_ADDR = 0x00, VT_STAT_ADDR = 0x01, VT_ERR_1S_ADDR = 0x04,
      VT_ERR_10S_ADDR = 0x0C, VT_ERR_100S_ADDR = 0x14,
      VT_DAC_TUNNED_VAL_ADDR0 = 0x20, VT_DAC_TUNNED_VAL_ADDR1 = 0x21,
      VT_STATE_ADDR = 0x22, CONFIG_DAC_MAX = 65535,
      lroundf_unspecified = (\<lambda>v. if v < 0 then 0x80000000 else 0x7FFFFFFF)\<rparr>"

text \<open>
  The state in which the \<^verbatim>\<open>COARSE_TUNE_DONE\<close> case runs: the error \<open>x0\<close> measured at
  the minimum trim code is recorded in point 0, the error \<open>x1\<close> measured at the maximum
  trim code waits in the mailbox.
\<close>

definition coarse_done_example :: "int \<Rightarrow> int \<Rightarrow> fw_state" where
  "coarse_done_example x0 x1 =
     \<lparr>vctcxo_tamer_ctrl_reg = 0x41,
      vctcxo_trim_dac_value = 0xFFFF,
      vctcxo_tamer_pkt = \<lparr>ready = True, pps_1s_error = word_of_int x1, pps_10s_error = 0,
        pps_100s_error = 0, pps_1s_error_flag = True, pps_10s_error_flag = False,
        pps_100s_error_flag = False\<rparr>,
      trimdac_cal_line = \<lparr>point0 = \<lparr>point_x = word_of_int x0, point_y = 0\<rparr>,
        point1 = \<lparr>point_x = 0, point_y = 0xFFFF\<rparr>, slope = 0, y_intercept = 0\<rparr>,
      tune_state = COARSE_TUNE_DONE,
      vctcxo_tamer_en = 1,
      vctcxo_tamer_en_old = 1,
      hw_writes = []\<rparr>"

text \<open>
  A state of the \<^verbatim>\<open>FINE_TUNE\<close> phase with a sample in the mailbox: the trim code, the
  slope of the calibration line, the three error counts and the three window flags are
  given.
\<close>

definition fine_tune_example ::
  "u16 \<Rightarrow> rat \<Rightarrow> int \<times> int \<times> int \<Rightarrow> bool \<times> bool \<times> bool \<Rightarrow> fw_state" where
  "fine_tune_example code slp errors flags =
     \<lparr>vctcxo_tamer_ctrl_reg = 0x41,
      vctcxo_trim_dac_value = code,
      vctcxo_tamer_pkt = \<lparr>ready = True,
        pps_1s_error = word_of_int (fst errors),
        pps_10s_error = word_of_int (fst (snd errors)),
        pps_100s_error = word_of_int (snd (snd errors)),
        pps_1s_error_flag = fst flags,
        pps_10s_error_flag = fst (snd flags),
        pps_100s_error_flag = snd (snd flags)\<rparr>,
      trimdac_cal_line = \<lparr>point0 = \<lparr>point_x = 0, point_y = 0\<rparr>,
        point1 = \<lparr>point_x = 0, point_y = 0xFFFF\<rparr>, slope = slp, y_intercept = code\<rparr>,
      tune_state = FINE_TUNE,
      vctcxo_tamer_en = 1,
      vctcxo_tamer_en_old = 1,
      hw_writes = []\<rparr>"

section \<open>Properties of the rounding functions\<close>

text \<open>
  \<open>floor_log2\<close> finds the binade of a positive rational, so \<open>binary32_round\<close> returns
  the multiple of the unit in the last place that is nearest to its argument. The
  lemmas \<open>binary32_round_near\<close> and \<open>lround_away_near\<close> evaluate the operations at
  concrete arguments.
\<close>

lemma bit_length_unique:
  "2 ^ k \<le> n \<Longrightarrow> n < 2 ^ Suc k \<Longrightarrow> bit_length n = Suc k"
proof (induction k arbitrary: n)
  case 0
  then have "n = Suc 0" by simp
  then show ?case
    by (simp add: bit_length.simps [of "Suc 0"] bit_length.simps [of 0])
next
  case (Suc k)
  from Suc.prems have "2 ^ k \<le> n div 2" and "n div 2 < 2 ^ Suc k" and "n \<noteq> 0"
    by auto
  with Suc.IH [of "n div 2"] show ?case
    by (simp add: bit_length.simps [of n])
qed

lemma nat_power2_bounds:
  assumes l: "(2::int) ^ k \<le> z" and h: "z < 2 ^ Suc k"
  shows "2 ^ k \<le> nat z" and "nat z < 2 ^ Suc k"
proof -
  from l have "0 \<le> z"
    by (rule order_trans [rotated]) simp
  then obtain m where m: "z = int m"
    using nonneg_int_cases by blast
  from h have "int m < int (2 ^ Suc k)"
    unfolding m by simp
  then have "m < 2 ^ Suc k"
    by (simp only: of_nat_less_iff)
  then show "nat z < 2 ^ Suc k"
    unfolding m by simp
  from l show "2 ^ k \<le> nat z"
    unfolding m by simp
qed

lemma floor_log2_unique:
  assumes lo: "2 powi e \<le> q" and hi: "q < 2 powi (e + 1)"
  shows "floor_log2 q = e"
proof (cases "1 \<le> q")
  case True
  have "0 \<le> e"
  proof (rule ccontr)
    assume "\<not> 0 \<le> e"
    then have "e + 1 \<le> 0" by simp
    then have "(2::rat) powi (e + 1) \<le> 2 powi 0"
      by (intro power_int_increasing) simp_all
    with hi True show False by simp
  qed
  then obtain k where k: "e = int k"
    using nonneg_int_cases by blast
  have l: "(2::int) ^ k \<le> \<lfloor>q\<rfloor>"
    using lo by (simp add: k le_floor_iff)
  have h: "\<lfloor>q\<rfloor> < (2::int) ^ Suc k"
    using hi by (simp add: k floor_less_iff power_int_add_1)
  from l h have "2 ^ k \<le> nat \<lfloor>q\<rfloor>" and "nat \<lfloor>q\<rfloor> < 2 ^ Suc k"
    by (rule nat_power2_bounds)+
  then have "bit_length (nat \<lfloor>q\<rfloor>) = Suc k"
    by (rule bit_length_unique)
  with True show ?thesis
    by (simp add: floor_log2_def k)
next
  case False
  have "(0::rat) < 2 powi e"
    by simp
  with lo have qpos: "0 < q"
    by linarith
  have "e < 0"
  proof (rule ccontr)
    assume "\<not> e < 0"
    then have "(1::rat) \<le> 2 powi e"
      by simp
    with lo False show False by simp
  qed
  then obtain i where i: "e = - int (Suc i)"
    by (metis add.inverse_inverse neg_0_less_iff_less zero_less_imp_eq_int gr0_implies_Suc)
  have e1: "e + 1 = - int i"
    by (simp add: i)
  have lo': "1 / q \<le> 2 ^ Suc i"
  proof -
    have "(2::rat) powi e = inverse (2 ^ Suc i)"
      by (simp only: i power_int_minus power_int_of_nat)
    with lo have "1 / 2 ^ Suc i \<le> q"
      by (simp add: field_simps)
    then show ?thesis
      using qpos by (simp add: field_simps)
  qed
  have hi': "2 ^ i < 1 / q"
  proof -
    have pw: "(2::rat) powi (e + 1) = inverse (2 ^ i)"
      by (simp only: e1 power_int_minus power_int_of_nat)
    from hi have "q < inverse (2 ^ i)"
      unfolding pw .
    then have "q < 1 / 2 ^ i"
      by (simp add: inverse_eq_divide)
    then show ?thesis
      using qpos by (simp add: field_simps)
  qed
  have c1: "\<lceil>1 / q\<rceil> \<le> (2::int) ^ Suc i"
    using lo' by (simp add: ceiling_le_iff)
  have c2: "(2::int) ^ i < \<lceil>1 / q\<rceil>"
    using hi' by (simp add: less_ceiling_iff)
  from c1 c2 have "(2::int) ^ i \<le> \<lceil>1 / q\<rceil> - 1" and "\<lceil>1 / q\<rceil> - 1 < (2::int) ^ Suc i"
    by simp_all
  then have "2 ^ i \<le> nat (\<lceil>1 / q\<rceil> - 1)" and "nat (\<lceil>1 / q\<rceil> - 1) < 2 ^ Suc i"
    by (rule nat_power2_bounds)+
  then have "bit_length (nat (\<lceil>1 / q\<rceil> - 1)) = Suc i"
    by (rule bit_length_unique)
  with False show ?thesis
    by (simp add: floor_log2_def i)
qed

lemma round_half_even_near:
  assumes "\<bar>r - of_int n\<bar> < 1 / 2"
  shows "round_half_even r = n"
proof (cases "of_int n \<le> r")
  case True
  with assms have "\<lfloor>r\<rfloor> = n"
    by (intro floor_unique) auto
  with assms True show ?thesis
    by (simp add: round_half_even_def Let_def)
next
  case False
  with assms have f: "\<lfloor>r\<rfloor> = n - 1"
    by (intro floor_unique) auto
  with assms False show ?thesis
    by (simp add: round_half_even_def Let_def)
qed

lemma binary32_round_near:
  assumes "2 powi e \<le> \<bar>q\<bar>" "\<bar>q\<bar> < 2 powi (e + 1)" "- 126 \<le> e"
    and "\<bar>q / 2 powi (e - 23) - of_int n\<bar> < 1 / 2"
  shows "binary32_round q = of_int n * 2 powi (e - 23)"
proof -
  have "floor_log2 \<bar>q\<bar> = e"
    using assms(1,2) by (rule floor_log2_unique)
  moreover have "(0::rat) < 2 powi e"
    by simp
  with assms(1) have "q \<noteq> 0"
    by linarith
  moreover have "round_half_even (q / 2 powi (e - 23)) = n"
    using assms(4) by (rule round_half_even_near)
  ultimately show ?thesis
    using assms(3) by (simp add: binary32_round_def Let_def max_def)
qed

lemma lround_away_near:
  assumes "\<bar>v - of_int n\<bar> < 1 / 2"
  shows "lround_away v = n"
proof -
  from assms have b: "of_int n - 1 / 2 < v" "v < of_int n + 1 / 2"
    by linarith+
  show ?thesis
  proof (cases "0 \<le> v")
    case True
    have "\<lfloor>v + 1 / 2\<rfloor> = n"
      using b by (intro floor_unique) auto
    with True show ?thesis
      by (simp add: lround_away_def)
  next
    case False
    have "\<lfloor>- v + 1 / 2\<rfloor> = - n"
      using b by (intro floor_unique) auto
    with False show ?thesis
      by (simp add: lround_away_def)
  qed
qed

lemma lround_away_half:
  "0 \<le> n \<Longrightarrow> lround_away (of_int n + 1 / 2) = n + 1"
  "0 \<le> n \<Longrightarrow> lround_away (- (of_int n + 1 / 2)) = - (n + 1)"
proof -
  assume n: "0 \<le> n"
  have "\<lfloor>rat_of_int n + 1 / 2 + 1 / 2\<rfloor> = n + 1"
    by (intro floor_unique) auto
  with n show "lround_away (of_int n + 1 / 2) = n + 1"
    by (simp add: lround_away_def)
  have "\<not> 0 \<le> - (rat_of_int n + 1 / 2)"
    using n by (simp add: add_nonneg_pos)
  with \<open>\<lfloor>rat_of_int n + 1 / 2 + 1 / 2\<rfloor> = n + 1\<close>
  show "lround_away (- (of_int n + 1 / 2)) = - (n + 1)"
    by (simp add: lround_away_def)
qed

section \<open>Properties of the machine arithmetic\<close>

lemma sint_diff_in_range:
  fixes a b :: i32
  assumes "- (2 ^ 31) \<le> sint a - sint b" "sint a - sint b < 2 ^ 31"
  shows "sint (a - b) = sint a - sint b"
  using assms by (simp add: sint_word_ariths signed_take_bit_int_eq_self)

lemma sint_diff_zero_iff:
  fixes a b :: i32
  shows "a - b = 0 \<longleftrightarrow> sint a - sint b = 0"
  by (simp add: word_eq_iff_signed [of a b])

lemma lroundf_in_range:
  assumes "- (2 ^ 31) \<le> lround_away v" "lround_away v < 2 ^ 31"
  shows "lroundf cfg v = word_of_int (lround_away v)"
  using assms by (simp add: lroundf_def Let_def)

lemma uint_y_minus_lround:
  fixes y :: u16
  shows "uint (y - ucast (word_of_int r :: i32)) = (uint y - r) mod 65536"
proof -
  have "(ucast (word_of_int r :: i32) :: u16) = word_of_int r"
    by (simp add: word_uint_eq_iff unsigned_ucast_eq uint_word_of_int_eq)
  then show ?thesis
    by (simp add: uint_word_ariths uint_word_of_int_eq take_bit_eq_mod mod_diff_right_eq)
qed

lemma clamp_code:
  fixes w :: i32
  assumes "0 \<le> D" "D \<le> 65535"
  shows "uint (ucast (if D < sint w then word_of_int D else if sint w < 0 then 0 else w) :: u16) =
         max 0 (min D (sint w))"
proof -
  have d: "uint (ucast (word_of_int D :: i32) :: u16) = D"
    using assms by (simp add: uint_word_of_int_eq unsigned_ucast_eq take_bit_int_eq_self)
  have w: "uint (ucast w :: u16) = sint w" if "0 \<le> sint w" "sint w \<le> D"
  proof -
    from that assms have "uint w = sint w"
      by (simp add: uint_sint [of w] take_bit_int_eq_self)
    with that assms show ?thesis
      by (simp add: unsigned_ucast_eq take_bit_int_eq_self)
  qed
  show ?thesis
    using d w assms by (auto simp: max_def min_def)
qed

lemma c_div_between:
  assumes "scale = 1 \<or> scale = 10 \<or> scale = 100"
  shows "min r 0 \<le> c_div r scale" and "c_div r scale \<le> max r 0"
proof -
  have d: "0 \<le> \<bar>r\<bar> div scale" "\<bar>r\<bar> div scale \<le> \<bar>r\<bar>"
    using assms by auto
  have "c_div r scale = sgn r * (\<bar>r\<bar> div scale)"
    using assms by (auto simp: c_div_def)
  with d show "min r 0 \<le> c_div r scale" and "c_div r scale \<le> max r 0"
    by (auto simp: sgn_if min_def max_def)
qed

lemma adjust_new_value:
  fixes t :: u16
  assumes "- (2 ^ 31) \<le> q" "q < 2 ^ 31" "uint t - q < 2 ^ 31"
  shows "sint ((ucast t :: i32) - word_of_int q) = uint t - q"
proof -
  have b: "0 \<le> uint t" "uint t < 65536"
    using uint_lt2p [of t] by simp_all
  have "signed_take_bit 31 (uint t) = uint t"
  proof (rule signed_take_bit_int_eq_self)
    show "- (2 ^ 31) \<le> uint t"
      by (rule order_trans [OF _ uint_nonnegative]) simp
    show "uint t < 2 ^ 31"
      by (rule less_trans [OF b(2)]) simp
  qed
  then have t: "sint (ucast t :: i32) = uint t"
    by (simp add: signed_ucast_eq)
  have "signed_take_bit 31 q = q"
    using assms(1,2) by (intro signed_take_bit_int_eq_self) simp_all
  then have q: "sint (word_of_int q :: i32) = q"
    by (simp add: sint_sbintrunc')
  have "0 - q \<le> uint t - q"
    using uint_nonnegative [of t] by linarith
  moreover from assms(2) have "- (2 ^ 31) \<le> 0 - q"
    by simp
  ultimately have "- (2 ^ 31) \<le> uint t - q"
    by (rule order_trans [rotated])
  with assms(3) show ?thesis
    by (simp add: sint_word_ariths t q signed_take_bit_int_eq_self)
qed


section \<open>What the driver and the loop leave unchanged\<close>

lemma mask_facts:
  fixes c m v :: u8
  shows "(c AND NOT m) AND m = 0"
    and "(c OR m) AND m = m"
    and "v AND m = v \<Longrightarrow> ((c AND NOT m) OR v) AND m = v"
    and "v AND m = v \<Longrightarrow> ((c AND NOT m) OR v) AND NOT m = c AND NOT m"
     apply (simp_all add: bit_eq_iff bit_and_iff bit_or_iff bit_not_iff)
     apply blast+
  done

lemma tune_field:
  "mode = VCTCXO_TAMER_DISABLED \<or> mode = VCTCXO_TAMER_1_PPS \<or> mode = VCTCXO_TAMER_10_MHZ \<Longrightarrow>
   push_bit 6 (ucast mode :: u8) AND VT_CTRL_TUNE_MODE = push_bit 6 (ucast mode :: u8)"
  by (auto simp: VCTCXO_TAMER_DISABLED_def VCTCXO_TAMER_1_PPS_def VCTCXO_TAMER_10_MHZ_def
      VT_CTRL_TUNE_MODE_def)

lemma tune_state_write [simp]:
  "tune_state (vctcxo_tamer_write a d s) = tune_state s"
  by (simp add: vctcxo_tamer_write_def)

lemma tune_state_reset_counters [simp]:
  "tune_state (vctcxo_tamer_reset_counters cfg r s) = tune_state s"
  by (simp add: vctcxo_tamer_reset_counters_def Let_def)

lemma tune_state_enable_isr [simp]:
  "tune_state (vctcxo_tamer_enable_isr cfg r s) = tune_state s"
  by (simp add: vctcxo_tamer_enable_isr_def Let_def)

lemma tune_state_dac_write [simp]:
  "tune_state (vctcxo_trim_dac_write cfg v s) = tune_state s"
  by (simp add: vctcxo_trim_dac_write_def Let_def)

lemma tune_state_adjust [simp]:
  "tune_state (adjust_trim_dac cfg e sl sc s) = tune_state s"
  by (simp add: adjust_trim_dac_def Let_def)

lemma tune_state_isr [simp]:
  "tune_state (vctcxo_tamer_isr cfg hw s) = tune_state s"
  by (simp add: vctcxo_tamer_isr_def vctcxo_tamer_clear_isr_def Let_def)

lemma tune_state_set_tune_mode [simp]:
  "tune_state (vctcxo_tamer_set_tune_mode cfg m s) = tune_state s"
  by (simp add: vctcxo_tamer_set_tune_mode_def Let_def)

lemma pkt_write [simp]:
  "vctcxo_tamer_pkt (vctcxo_tamer_write a d s) = vctcxo_tamer_pkt s"
  by (simp add: vctcxo_tamer_write_def)

lemma pkt_reset_counters [simp]:
  "vctcxo_tamer_pkt (vctcxo_tamer_reset_counters cfg r s) = vctcxo_tamer_pkt s"
  by (simp add: vctcxo_tamer_reset_counters_def Let_def)

lemma pkt_enable_isr [simp]:
  "vctcxo_tamer_pkt (vctcxo_tamer_enable_isr cfg r s) = vctcxo_tamer_pkt s"
  by (simp add: vctcxo_tamer_enable_isr_def Let_def)

lemma pkt_dac_write [simp]:
  "vctcxo_tamer_pkt (vctcxo_trim_dac_write cfg v s) = vctcxo_tamer_pkt s"
  by (simp add: vctcxo_trim_dac_write_def Let_def)

lemma pkt_adjust [simp]:
  "vctcxo_tamer_pkt (adjust_trim_dac cfg e sl sc s) = vctcxo_tamer_pkt s"
  by (simp add: adjust_trim_dac_def Let_def)

lemma pkt_tune_state_case [simp]:
  "vctcxo_tamer_pkt (tune_state_case cfg p s) = vctcxo_tamer_pkt s"
  by (cases p) (simp_all add: Let_def)

lemma pkt_set_tune_mode [simp]:
  "vctcxo_tamer_pkt (vctcxo_tamer_set_tune_mode cfg m s) = vctcxo_tamer_pkt s"
  by (simp add: vctcxo_tamer_set_tune_mode_def Let_def)

lemma isr_frame:
  "vctcxo_tamer_en (vctcxo_tamer_isr cfg hw s) = vctcxo_tamer_en s"
  "vctcxo_tamer_en_old (vctcxo_tamer_isr cfg hw s) = vctcxo_tamer_en_old s"
  "ready (vctcxo_tamer_pkt (vctcxo_tamer_isr cfg hw s))"
  by (simp_all add: vctcxo_tamer_isr_def vctcxo_tamer_clear_isr_def vctcxo_tamer_write_def
      vctcxo_tamer_enable_isr_def vctcxo_tamer_reset_counters_def Let_def)

lemma tune_state_case_next:
  "tune_state s = p \<Longrightarrow> tune_state (tune_state_case cfg p s) = phase_successor p"
  by (cases p) (simp_all add: Let_def)

lemma fsm_phase:
  "tune_state (calibration_fsm cfg s) =
     (if ready (vctcxo_tamer_pkt s) then phase_successor (tune_state s) else tune_state s)"
  by (simp add: calibration_fsm_def Let_def tune_state_case_next)

lemma fsm_ready:
  "\<not> ready (vctcxo_tamer_pkt (calibration_fsm cfg s))"
  by (simp add: calibration_fsm_def Let_def)

lemma edge_phase:
  "tune_state (enable_edge cfg s) =
     (if vctcxo_tamer_en_old s \<noteq> vctcxo_tamer_en s then COARSE_TUNE_MIN else tune_state s)"
  by (simp add: enable_edge_def Let_def vctcxo_tamer_init_def vctcxo_tamer_dis_def)

lemma edge_ready:
  "ready (vctcxo_tamer_pkt (enable_edge cfg s)) =
     (if vctcxo_tamer_en_old s \<noteq> vctcxo_tamer_en s then vctcxo_tamer_en s = 1
      else ready (vctcxo_tamer_pkt s))"
  by (simp add: enable_edge_def Let_def vctcxo_tamer_init_def vctcxo_tamer_dis_def)

lemma coarse_done_step:
  assumes "tune_state s = COARSE_TUNE_DONE" and "ready (vctcxo_tamer_pkt s)"
  shows "trimdac_cal_line (calibration_fsm cfg s) =
           coarse_tune_done_line cfg ((trimdac_cal_line s)
             \<lparr>point1 := (point1 (trimdac_cal_line s))
                \<lparr>point_x := pps_1s_error (vctcxo_tamer_pkt s)\<rparr>\<rparr>)"
    and "vctcxo_trim_dac_value (calibration_fsm cfg s) =
           y_intercept (trimdac_cal_line (calibration_fsm cfg s))"
  using assms
  by (simp_all add: calibration_fsm_def Let_def vctcxo_trim_dac_write_def vctcxo_tamer_write_def
      vctcxo_tamer_reset_counters_def vctcxo_tamer_enable_isr_def)

section \<open>The single-precision operations at the inputs of the examples\<close>

lemma binary32_examples:
  "float_of_int 65535 = 65535"
  "float_of_int 181 = 181"
  "float_of_int (- 174) = - 174"
  "float_of_int (- 20) = - 20"
  "float_of_int 32 = 32"
  "fdiv 65535 181 = 5932185 / 16384"
  "fdiv 65535 (- 20) = - (13107 / 4)"
  "fmul (5932185 / 16384) (- 174) = - (126001 / 2)"
  "fmul (- 174) (5932185 / 16384) = - (126001 / 2)"
  "fmul (- (13107 / 4)) 32 = - 104856"
  using binary32_round_near [of 15 65535 16776960]
    binary32_round_near [of 7 181 11862016]
    binary32_round_near [of 7 "- 174" "- 11403264"]
    binary32_round_near [of 4 "- 20" "- 10485760"]
    binary32_round_near [of 5 32 8388608]
    binary32_round_near [of 8 "65535 / 181" 11864370]
    binary32_round_near [of 11 "65535 / (- 20)" "- 13421568"]
    binary32_round_near [of 15 "5932185 / 16384 * (- 174)" "- 16128128"]
    binary32_round_near [of 16 "- (13107 / 4) * 32" "- 13421568"]
  by (simp_all add: float_of_int_def fdiv_def fmul_def)

lemma lround_examples:
  "lround_away (- (126001 / 2)) = - 63001"
  "lround_away (- 104856) = - 104856"
  "lround_away (- (11403090 / 181)) = - 63000"
  "lround_away (- (516100095 / 8192)) = - 63000"
  using lround_away_half(2) [of 63000]
    lround_away_near [of "- 104856" "- 104856"]
    lround_away_near [of "- (11403090 / 181)" "- 63000"]
    lround_away_near [of "- (516100095 / 8192)" "- 63000"]
  by simp_all

lemmas fw_eval = calibration_fsm_def coarse_tune_done_line_def
  adjust_trim_dac_def vctcxo_trim_dac_write_def vctcxo_tamer_write_def
  vctcxo_tamer_reset_counters_def vctcxo_tamer_enable_isr_def lroundf_def Let_def
  example_config_def VCTCXO_DEFAULT_DAC_VALUE_def VT_CTRL_RESET_def VT_CTRL_IRQ_EN_def
  binary32_examples lround_examples

section \<open>The calibration line of the coarse phase\<close>

text \<open>
  C1, as the code computes it. In the \<^verbatim>\<open>COARSE_TUNE_DONE\<close> step the error of the consumed
  sample becomes \<open>point1.x\<close>. If \<open>point1.x - point0.x\<close> is zero, the slope is left as
  it was and the y-intercept is the default trim code \<open>0x77FA\<close>, whatever the y values
  are. Otherwise (and when the difference fits \<^verbatim>\<open>int32_t\<close>) the slope is the
  single-precision quotient of the two differences, each converted to single precision,
  and the y-intercept is \<open>point0.y\<close> minus the single-precision product
  \<open>slope * point0.x\<close> rounded half away from zero, whenever that difference is a 16-bit
  trim code.
\<close>

theorem coarse_tune_done_line_binary32:
  assumes "tune_state s = COARSE_TUNE_DONE" and "ready (vctcxo_tamer_pkt s)"
  shows
    "let l = trimdac_cal_line s;
         x0 = sint (point_x (point0 l));
         x1 = sint (pps_1s_error (vctcxo_tamer_pkt s));
         y0 = uint (point_y (point0 l));
         y1 = uint (point_y (point1 l));
         l' = trimdac_cal_line (calibration_fsm cfg s)
     in point0 l' = point0 l \<and>
        point1 l' = (point1 l)\<lparr>point_x := pps_1s_error (vctcxo_tamer_pkt s)\<rparr> \<and>
        (x1 - x0 = 0 \<longrightarrow>
           y_intercept l' = VCTCXO_DEFAULT_DAC_VALUE \<and> slope l' = slope l) \<and>
        (x1 - x0 \<noteq> 0 \<and> - (2 ^ 31) \<le> x1 - x0 \<and> x1 - x0 < 2 ^ 31 \<longrightarrow>
           slope l' = fdiv (float_of_int (y1 - y0)) (float_of_int (x1 - x0)) \<and>
           (let yi = y0 - lround_away (fmul (slope l') (float_of_int x0))
            in 0 \<le> yi \<and> yi \<le> 65535 \<longrightarrow> uint (y_intercept l') = yi))"
proof -
  define l where "l = trimdac_cal_line s"
  define a where "a = pps_1s_error (vctcxo_tamer_pkt s)"
  define b where "b = point_x (point0 l)"
  define l1 where "l1 = l\<lparr>point1 := (point1 l)\<lparr>point_x := a\<rparr>\<rparr>"
  define l' where "l' = trimdac_cal_line (calibration_fsm cfg s)"
  have l': "l' = coarse_tune_done_line cfg l1"
    unfolding l'_def l1_def l_def a_def using assms by (rule coarse_done_step(1))
  have p: "point0 l' = point0 l" "point1 l' = (point1 l)\<lparr>point_x := a\<rparr>"
    by (simp_all add: l' l1_def coarse_tune_done_line_def Let_def)
  have z: "y_intercept l' = VCTCXO_DEFAULT_DAC_VALUE \<and> slope l' = slope l"
    if "sint a - sint b = 0"
  proof -
    from that have "a - b = 0"
      using sint_diff_zero_iff [of a b] by blast
    then show ?thesis
      by (simp add: l' l1_def b_def coarse_tune_done_line_def)
  qed
  have n: "slope l' = fdiv (float_of_int (uint (point_y (point1 l)) - uint (point_y (point0 l))))
                           (float_of_int (sint a - sint b)) \<and>
           (0 \<le> uint (point_y (point0 l)) - lround_away (fmul (slope l') (float_of_int (sint b))) \<and>
            uint (point_y (point0 l)) - lround_away (fmul (slope l') (float_of_int (sint b))) \<le> 65535 \<longrightarrow>
            uint (y_intercept l') =
              uint (point_y (point0 l)) - lround_away (fmul (slope l') (float_of_int (sint b))))"
    if d: "sint a - sint b \<noteq> 0" "- (2 ^ 31) \<le> sint a - sint b" "sint a - sint b < 2 ^ 31"
  proof -
    from d(1) have nz: "a - b \<noteq> 0"
      using sint_diff_zero_iff [of a b] by blast
    from d(2,3) have sd: "sint (a - b) = sint a - sint b"
      by (rule sint_diff_in_range)
    have sl: "slope l' = fdiv (float_of_int (uint (point_y (point1 l)) - uint (point_y (point0 l))))
                           (float_of_int (sint a - sint b))"
      using nz [unfolded b_def]
      by (simp add: l' l1_def b_def coarse_tune_done_line_def Let_def sd [unfolded b_def])
    have yi: "y_intercept l' = point_y (point0 l) -
        ucast (lroundf cfg (fmul (slope l') (float_of_int (sint b))))"
      using nz [unfolded b_def]
      by (simp add: l' l1_def b_def coarse_tune_done_line_def Let_def sd [unfolded b_def])
    have "uint (y_intercept l') =
        uint (point_y (point0 l)) - lround_away (fmul (slope l') (float_of_int (sint b)))"
      if r: "0 \<le> uint (point_y (point0 l)) - lround_away (fmul (slope l') (float_of_int (sint b)))"
        "uint (point_y (point0 l)) - lround_away (fmul (slope l') (float_of_int (sint b))) \<le> 65535"
    proof -
      define r where "r = lround_away (fmul (slope l') (float_of_int (sint b)))"
      have y: "0 \<le> uint (point_y (point0 l))" "uint (point_y (point0 l)) < 65536"
        using uint_lt2p [of "point_y (point0 l)"] by simp_all
      from r have "uint (point_y (point0 l)) - 65535 \<le> r" "r \<le> uint (point_y (point0 l))"
        unfolding r_def by linarith+
      then have "- 65535 \<le> r" "r \<le> 65535"
        using uint_nonnegative [of "point_y (point0 l)"] y(2) by linarith+
      then have "- (2 ^ 31) \<le> r" "r < 2 ^ 31"
        by simp_all
      then have "lroundf cfg (fmul (slope l') (float_of_int (sint b))) = word_of_int r"
        unfolding r_def by (rule lroundf_in_range)
      then have "uint (y_intercept l') = (uint (point_y (point0 l)) - r) mod 65536"
        by (simp add: yi uint_y_minus_lround)
      with r show ?thesis
        unfolding r_def by simp
    qed
    with sl show ?thesis
      by blast
  qed
  show ?thesis
    unfolding Let_def
    using p z n
    unfolding l'_def l_def a_def b_def
    by blast
qed


text \<open>
  The theorem at the inputs \<open>point0 = (-174, 0)\<close>, \<open>point1 = (7, 65535)\<close>: the slope is
  the single-precision number nearest to \<open>65535 / 181\<close> and the y-intercept is 63001.
\<close>

theorem coarse_tune_done_line_binary32_witness:
  "tune_state (coarse_done_example (- 174) 7) = COARSE_TUNE_DONE \<and>
   ready (vctcxo_tamer_pkt (coarse_done_example (- 174) 7)) \<and>
   slope (trimdac_cal_line (calibration_fsm example_config (coarse_done_example (- 174) 7))) =
     5932185 / 16384 \<and>
   uint (y_intercept (trimdac_cal_line
     (calibration_fsm example_config (coarse_done_example (- 174) 7)))) = 63001"
proof -
  have h1: "tune_state (coarse_done_example (- 174) 7) = COARSE_TUNE_DONE"
    by (simp add: coarse_done_example_def)
  have h2: "ready (vctcxo_tamer_pkt (coarse_done_example (- 174) 7))"
    by (simp add: coarse_done_example_def)
  note line = coarse_tune_done_line_binary32 [OF h1 h2, of example_config, unfolded Let_def]
  have sl: "slope (trimdac_cal_line (calibration_fsm example_config (coarse_done_example (- 174) 7))) =
      5932185 / 16384"
    using line by (simp add: coarse_done_example_def binary32_examples)
  have "uint (y_intercept (trimdac_cal_line
      (calibration_fsm example_config (coarse_done_example (- 174) 7)))) = 63001"
    using line [unfolded sl]
    by (simp add: coarse_done_example_def binary32_examples lround_examples)
  with h1 h2 sl show ?thesis
    by blast
qed

text \<open>
  C1 as the specification states it, with real-valued division, fails at the same
  inputs. The exact slope \<open>65535 / 181\<close> is not a single-precision number, and
  \<open>0 - round (65535 / 181 * (-174)) = 63000\<close>, while the code rounds the product
  \<open>-63000.4998...\<close> to the single-precision number \<open>-63000.5\<close> first, which
  \<^verbatim>\<open>lroundf\<close> takes to \<open>-63001\<close>.
\<close>

theorem coarse_tune_done_real_valued_counterexample:
  "uint (y_intercept (trimdac_cal_line
     (calibration_fsm example_config (coarse_done_example (- 174) 7)))) = 63001 \<and>
   spec_y_intercept \<lparr>point_x = - 174, point_y = 0\<rparr> \<lparr>point_x = 7, point_y = 65535\<rparr> = 63000 \<and>
   slope (trimdac_cal_line (calibration_fsm example_config (coarse_done_example (- 174) 7))) =
     5932185 / 16384 \<and>
   spec_slope \<lparr>point_x = - 174, point_y = 0\<rparr> \<lparr>point_x = 7, point_y = 65535\<rparr> = 65535 / 181"
  by (simp add: fw_eval coarse_done_example_def spec_y_intercept_def spec_slope_def)

text \<open>
  C2: the specification has the y-intercept clamped into \<open>[0, DacMax]\<close> before it is
  written to the DAC. The \<^verbatim>\<open>COARSE_TUNE_DONE\<close> case has no clamp (only
  \<^verbatim>\<open>adjust_trim_dac\<close> has one): it computes in \<^verbatim>\<open>uint16_t\<close> and writes the
  result as it is. With \<open>point0 = (32, 0)\<close> and \<open>point1 = (12, 65535)\<close> the line crosses
  zero error at the trim code 104856, beyond \<open>DacMax = 65535\<close>; the code writes
  \<open>104856 mod 65536 = 39320\<close> (the bytes \<open>0x98\<close>, \<open>0x99\<close>) where the clamp gives 65535.
\<close>

theorem coarse_tune_done_wraps:
  "vctcxo_trim_dac_value (calibration_fsm example_config (coarse_done_example 32 12)) = 39320 \<and>
   hw_writes (calibration_fsm example_config (coarse_done_example 32 12)) =
     [(0x22, 0x01), (0x20, 0x98), (0x21, 0x99), (0x00, 0x40), (0x00, 0x42)] \<and>
   spec_y_intercept \<lparr>point_x = 32, point_y = 0\<rparr> \<lparr>point_x = 12, point_y = 65535\<rparr> = 104856 \<and>
   spec_clamp 65535 104856 = 65535"
  by (simp add: fw_eval coarse_done_example_def spec_y_intercept_def spec_slope_def
      spec_clamp_def)


section \<open>The tune mode\<close>

text \<open>
  C7: for every mode value other than \<^verbatim>\<open>VCTCXO_TAMER_DISABLED\<close>,
  \<^verbatim>\<open>VCTCXO_TAMER_1_PPS\<close> and \<^verbatim>\<open>VCTCXO_TAMER_10_MHZ\<close>,
  \<^verbatim>\<open>vctcxo_tamer_set_tune_mode\<close> returns the state it was given: no register is
  written, the control-register cache and everything else stay as they were, and
  there is no error result.
\<close>

theorem set_tune_mode_invalid_noop:
  "mode \<noteq> VCTCXO_TAMER_DISABLED \<Longrightarrow> mode \<noteq> VCTCXO_TAMER_1_PPS \<Longrightarrow>
   mode \<noteq> VCTCXO_TAMER_10_MHZ \<Longrightarrow> vctcxo_tamer_set_tune_mode cfg mode s = s"
  by (simp add: vctcxo_tamer_set_tune_mode_def)

text \<open>The mode value 3, in the state before the first loop iteration.\<close>

theorem set_tune_mode_invalid_noop_witness:
  "(3 :: vctcxo_tamer_mode) \<noteq> VCTCXO_TAMER_DISABLED \<and>
   (3 :: vctcxo_tamer_mode) \<noteq> VCTCXO_TAMER_1_PPS \<and>
   (3 :: vctcxo_tamer_mode) \<noteq> VCTCXO_TAMER_10_MHZ \<and>
   vctcxo_tamer_set_tune_mode example_config 3 (main_init example_config) =
     main_init example_config"
proof -
  have a: "(3 :: vctcxo_tamer_mode) \<noteq> VCTCXO_TAMER_DISABLED"
    by (simp add: VCTCXO_TAMER_DISABLED_def)
  have b: "(3 :: vctcxo_tamer_mode) \<noteq> VCTCXO_TAMER_1_PPS"
    by (simp add: VCTCXO_TAMER_1_PPS_def)
  have c: "(3 :: vctcxo_tamer_mode) \<noteq> VCTCXO_TAMER_10_MHZ"
    by (simp add: VCTCXO_TAMER_10_MHZ_def)
  from set_tune_mode_invalid_noop [OF a b c] a b c show ?thesis
    by blast
qed

text \<open>
  C8: for each of the three modes, \<^verbatim>\<open>vctcxo_tamer_set_tune_mode\<close> writes the control
  register in this order: the cache with the interrupt-enable bit cleared (\<open>c1\<close>); then
  with the tune-mode field, bits 6-7, replaced by the mode (\<open>c2\<close>); then with the
  reset bit set (\<open>c3\<close>); then, unless the mode is disabled, with the reset bit cleared
  (\<open>c4\<close>); and last, for the 1 PPS and the 10 MHz mode, with the interrupt-enable bit
  set (\<open>c5\<close>). The cache ends as the last byte written.
\<close>

theorem set_tune_mode_sequence:
  assumes "mode = VCTCXO_TAMER_DISABLED \<or> mode = VCTCXO_TAMER_1_PPS \<or> mode = VCTCXO_TAMER_10_MHZ"
  shows "let a = VT_CTRL_ADDR cfg;
             c1 = vctcxo_tamer_ctrl_reg s AND NOT VT_CTRL_IRQ_EN;
             c2 = (c1 AND NOT VT_CTRL_TUNE_MODE) OR push_bit 6 (ucast mode);
             c3 = c2 OR VT_CTRL_RESET;
             c4 = c3 AND NOT VT_CTRL_RESET;
             c5 = c4 OR VT_CTRL_IRQ_EN;
             s' = vctcxo_tamer_set_tune_mode cfg mode s
         in hw_writes s' =
              hw_writes s @ [(a, c1), (a, c2), (a, c3)] @
              (if mode = VCTCXO_TAMER_DISABLED then [] else [(a, c4)]) @
              (if mode = VCTCXO_TAMER_1_PPS \<or> mode = VCTCXO_TAMER_10_MHZ then [(a, c5)] else []) \<and>
            vctcxo_tamer_ctrl_reg s' = (if mode = VCTCXO_TAMER_DISABLED then c3 else c5) \<and>
            c1 AND VT_CTRL_IRQ_EN = 0 \<and>
            c2 AND VT_CTRL_TUNE_MODE = push_bit 6 (ucast mode) \<and>
            c2 AND NOT VT_CTRL_TUNE_MODE = c1 AND NOT VT_CTRL_TUNE_MODE \<and>
            c3 AND VT_CTRL_RESET = VT_CTRL_RESET \<and>
            c4 AND VT_CTRL_RESET = 0 \<and>
            c5 AND VT_CTRL_IRQ_EN = VT_CTRL_IRQ_EN"
proof -
  define c1 where "c1 = vctcxo_tamer_ctrl_reg s AND NOT VT_CTRL_IRQ_EN"
  define c2 where "c2 = (c1 AND NOT VT_CTRL_TUNE_MODE) OR push_bit 6 (ucast mode)"
  define c3 where "c3 = c2 OR VT_CTRL_RESET"
  define c4 where "c4 = c3 AND NOT VT_CTRL_RESET"
  define c5 where "c5 = c4 OR VT_CTRL_IRQ_EN"
  note cs = c1_def c2_def c3_def c4_def c5_def
  have f: "push_bit 6 (ucast mode :: u8) AND VT_CTRL_TUNE_MODE = push_bit 6 (ucast mode :: u8)"
    using assms by (rule tune_field)
  have w: "hw_writes (vctcxo_tamer_set_tune_mode cfg mode s) =
      hw_writes s @ [(VT_CTRL_ADDR cfg, c1), (VT_CTRL_ADDR cfg, c2), (VT_CTRL_ADDR cfg, c3)] @
      (if mode = VCTCXO_TAMER_DISABLED then [] else [(VT_CTRL_ADDR cfg, c4)]) @
      (if mode = VCTCXO_TAMER_1_PPS \<or> mode = VCTCXO_TAMER_10_MHZ
       then [(VT_CTRL_ADDR cfg, c5)] else [])"
    using assms unfolding cs
    by (auto simp: vctcxo_tamer_set_tune_mode_def vctcxo_tamer_enable_isr_def
        vctcxo_tamer_reset_counters_def vctcxo_tamer_write_def Let_def
        VCTCXO_TAMER_DISABLED_def VCTCXO_TAMER_1_PPS_def VCTCXO_TAMER_10_MHZ_def)
  have c: "vctcxo_tamer_ctrl_reg (vctcxo_tamer_set_tune_mode cfg mode s) =
      (if mode = VCTCXO_TAMER_DISABLED then c3 else c5)"
    using assms unfolding cs
    by (auto simp: vctcxo_tamer_set_tune_mode_def vctcxo_tamer_enable_isr_def
        vctcxo_tamer_reset_counters_def vctcxo_tamer_write_def Let_def
        VCTCXO_TAMER_DISABLED_def VCTCXO_TAMER_1_PPS_def VCTCXO_TAMER_10_MHZ_def)
  have b1: "c1 AND VT_CTRL_IRQ_EN = 0"
    unfolding c1_def by (rule mask_facts(1))
  have b2: "c2 AND VT_CTRL_TUNE_MODE = push_bit 6 (ucast mode)"
    unfolding c2_def by (rule mask_facts(3) [OF f])
  have b3: "c2 AND NOT VT_CTRL_TUNE_MODE = c1 AND NOT VT_CTRL_TUNE_MODE"
    unfolding c2_def by (rule mask_facts(4) [OF f])
  have b4: "c3 AND VT_CTRL_RESET = VT_CTRL_RESET"
    unfolding c3_def by (rule mask_facts(2))
  have b5: "c4 AND VT_CTRL_RESET = 0"
    unfolding c4_def by (rule mask_facts(1))
  have b6: "c5 AND VT_CTRL_IRQ_EN = VT_CTRL_IRQ_EN"
    unfolding c5_def by (rule mask_facts(2))
  from w c b1 b2 b3 b4 b5 b6 show ?thesis
    unfolding Let_def cs by blast
qed

text \<open>
  The 1 PPS mode requested while the cache holds \<open>0x83\<close> (10 MHz mode, interrupts
  enabled, counters in reset): after the two bytes of the default trim code, the
  control register receives \<open>0x81\<close>, \<open>0x41\<close>, \<open>0x41\<close>, \<open>0x40\<close>, \<open>0x42\<close>.
\<close>

theorem set_tune_mode_sequence_witness:
  "(VCTCXO_TAMER_1_PPS = VCTCXO_TAMER_DISABLED \<or> VCTCXO_TAMER_1_PPS = VCTCXO_TAMER_1_PPS \<or>
    VCTCXO_TAMER_1_PPS = VCTCXO_TAMER_10_MHZ) \<and>
   hw_writes (vctcxo_tamer_set_tune_mode example_config VCTCXO_TAMER_1_PPS
      (main_init example_config\<lparr>vctcxo_tamer_ctrl_reg := 0x83\<rparr>)) =
     [(0x20, 0xFA), (0x21, 0x77), (0x00, 0x81), (0x00, 0x41), (0x00, 0x41), (0x00, 0x40),
      (0x00, 0x42)]"
proof -
  have h: "VCTCXO_TAMER_1_PPS = VCTCXO_TAMER_DISABLED \<or> VCTCXO_TAMER_1_PPS = VCTCXO_TAMER_1_PPS \<or>
    VCTCXO_TAMER_1_PPS = VCTCXO_TAMER_10_MHZ"
    by simp
  from set_tune_mode_sequence [OF h, of example_config
      "main_init example_config\<lparr>vctcxo_tamer_ctrl_reg := 0x83\<rparr>"]
  have "hw_writes (vctcxo_tamer_set_tune_mode example_config VCTCXO_TAMER_1_PPS
      (main_init example_config\<lparr>vctcxo_tamer_ctrl_reg := 0x83\<rparr>)) =
     [(0x20, 0xFA), (0x21, 0x77), (0x00, 0x81), (0x00, 0x41), (0x00, 0x41), (0x00, 0x40),
      (0x00, 0x42)]"
    by (simp add: Let_def example_config_def main_init_def vctcxo_trim_dac_write_def
        vctcxo_tamer_write_def VCTCXO_DEFAULT_DAC_VALUE_def VT_CTRL_IRQ_EN_def VT_CTRL_RESET_def
        VT_CTRL_TUNE_MODE_def VCTCXO_TAMER_DISABLED_def VCTCXO_TAMER_1_PPS_def
        VCTCXO_TAMER_10_MHZ_def)
  with h show ?thesis by blast
qed

section \<open>The control register and its cache\<close>

lemma or_xor_disjoint:
  fixes c m :: u8
  assumes "c AND m = 0"
  shows "(c OR m) XOR c = m"
  using assms
  by (simp add: bit_eq_iff bit_and_iff bit_or_iff bit_xor_iff) blast

text \<open>
  C9, as the code does it. \<^verbatim>\<open>vctcxo_tamer_reset_counters\<close> and
  \<^verbatim>\<open>vctcxo_tamer_enable_isr\<close> set or clear their bit in the cache and write the
  whole cache byte to the control register, so the cache equals the byte last written.
  \<^verbatim>\<open>vctcxo_tamer_clear_isr\<close> writes the cache byte with the interrupt-clear bit
  set and leaves the cache as it was; whenever the cache does not hold the
  interrupt-clear bit, the byte written differs from the cache, in that bit and in no
  other. Nothing else changes in any of the three.
\<close>

theorem control_register_write_back:
  "vctcxo_tamer_reset_counters cfg reset s =
     s\<lparr>vctcxo_tamer_ctrl_reg :=
          (if reset then vctcxo_tamer_ctrl_reg s OR VT_CTRL_RESET
           else vctcxo_tamer_ctrl_reg s AND NOT VT_CTRL_RESET),
       hw_writes := hw_writes s @
          [(VT_CTRL_ADDR cfg,
            if reset then vctcxo_tamer_ctrl_reg s OR VT_CTRL_RESET
            else vctcxo_tamer_ctrl_reg s AND NOT VT_CTRL_RESET)]\<rparr> \<and>
   snd (last (hw_writes (vctcxo_tamer_reset_counters cfg reset s))) =
     vctcxo_tamer_ctrl_reg (vctcxo_tamer_reset_counters cfg reset s) \<and>
   vctcxo_tamer_enable_isr cfg enable s =
     s\<lparr>vctcxo_tamer_ctrl_reg :=
          (if enable then vctcxo_tamer_ctrl_reg s OR VT_CTRL_IRQ_EN
           else vctcxo_tamer_ctrl_reg s AND NOT VT_CTRL_IRQ_EN),
       hw_writes := hw_writes s @
          [(VT_CTRL_ADDR cfg,
            if enable then vctcxo_tamer_ctrl_reg s OR VT_CTRL_IRQ_EN
            else vctcxo_tamer_ctrl_reg s AND NOT VT_CTRL_IRQ_EN)]\<rparr> \<and>
   snd (last (hw_writes (vctcxo_tamer_enable_isr cfg enable s))) =
     vctcxo_tamer_ctrl_reg (vctcxo_tamer_enable_isr cfg enable s) \<and>
   vctcxo_tamer_clear_isr cfg s =
     s\<lparr>hw_writes := hw_writes s @
          [(VT_CTRL_ADDR cfg, vctcxo_tamer_ctrl_reg s OR VT_CTRL_IRQ_CLR)]\<rparr> \<and>
   (vctcxo_tamer_ctrl_reg s AND VT_CTRL_IRQ_CLR = 0 \<longrightarrow>
      snd (last (hw_writes (vctcxo_tamer_clear_isr cfg s))) \<noteq>
        vctcxo_tamer_ctrl_reg (vctcxo_tamer_clear_isr cfg s) \<and>
      snd (last (hw_writes (vctcxo_tamer_clear_isr cfg s))) XOR
        vctcxo_tamer_ctrl_reg (vctcxo_tamer_clear_isr cfg s) = VT_CTRL_IRQ_CLR)"
proof -
  have x: "(c OR VT_CTRL_IRQ_CLR) XOR c = VT_CTRL_IRQ_CLR"
    if "c AND VT_CTRL_IRQ_CLR = 0" for c :: u8
    using that by (rule or_xor_disjoint)
  have "c OR VT_CTRL_IRQ_CLR \<noteq> c" if z: "c AND VT_CTRL_IRQ_CLR = 0" for c :: u8
  proof
    assume "c OR VT_CTRL_IRQ_CLR = c"
    with x [OF z] have "VT_CTRL_IRQ_CLR = 0"
      by simp
    then show False
      by (simp add: VT_CTRL_IRQ_CLR_def)
  qed
  with x show ?thesis
    by (simp add: vctcxo_tamer_reset_counters_def vctcxo_tamer_enable_isr_def
        vctcxo_tamer_clear_isr_def vctcxo_tamer_write_def)
qed

text \<open>
  The interrupt cleared while the cache holds \<open>0x42\<close> (1 PPS mode, interrupts enabled):
  the cache has no interrupt-clear bit, so the byte written is not the cache.
\<close>

theorem control_register_write_back_witness:
  "vctcxo_tamer_ctrl_reg (main_init example_config\<lparr>vctcxo_tamer_ctrl_reg := 0x42\<rparr>) AND
     VT_CTRL_IRQ_CLR = 0 \<and>
   snd (last (hw_writes (vctcxo_tamer_clear_isr example_config
     (main_init example_config\<lparr>vctcxo_tamer_ctrl_reg := 0x42\<rparr>)))) \<noteq>
   vctcxo_tamer_ctrl_reg (vctcxo_tamer_clear_isr example_config
     (main_init example_config\<lparr>vctcxo_tamer_ctrl_reg := 0x42\<rparr>)) \<and>
   snd (last (hw_writes (vctcxo_tamer_clear_isr example_config
     (main_init example_config\<lparr>vctcxo_tamer_ctrl_reg := 0x42\<rparr>)))) XOR
   vctcxo_tamer_ctrl_reg (vctcxo_tamer_clear_isr example_config
     (main_init example_config\<lparr>vctcxo_tamer_ctrl_reg := 0x42\<rparr>)) = VT_CTRL_IRQ_CLR"
proof -
  have h: "vctcxo_tamer_ctrl_reg (main_init example_config\<lparr>vctcxo_tamer_ctrl_reg := 0x42\<rparr>) AND
     VT_CTRL_IRQ_CLR = 0"
    by (simp add: VT_CTRL_IRQ_CLR_def)
  with control_register_write_back [of example_config True
      "main_init example_config\<lparr>vctcxo_tamer_ctrl_reg := 0x42\<rparr>" True]
  show ?thesis
    by blast
qed

text \<open>
  C9 as the specification states it fails for \<^verbatim>\<open>vctcxo_tamer_clear_isr\<close>: called
  with the cache at \<open>0x00\<close>, it writes \<open>0x04\<close> to the control register and the cache
  stays \<open>0x00\<close>, so the cache is not the byte last written.
\<close>

theorem clear_isr_cache_differs:
  "snd (last (hw_writes (vctcxo_tamer_clear_isr example_config (main_init example_config)))) =
     0x04 \<and>
   vctcxo_tamer_ctrl_reg (vctcxo_tamer_clear_isr example_config (main_init example_config)) =
     0x00 \<and>
   snd (last (hw_writes (vctcxo_tamer_clear_isr example_config (main_init example_config)))) \<noteq>
     vctcxo_tamer_ctrl_reg (vctcxo_tamer_clear_isr example_config (main_init example_config))"
  by (simp add: vctcxo_tamer_clear_isr_def vctcxo_tamer_write_def main_init_def
      vctcxo_trim_dac_write_def VT_CTRL_IRQ_CLR_def)

section \<open>The mailbox\<close>

text \<open>
  C5: when the interrupt handler runs twice with nothing consuming the mailbox in
  between, the mailbox afterwards holds the three error counts and the three window
  flags that the second run read from the hardware, and \<open>ready\<close> is true; nothing of
  the first sample is left.
\<close>

theorem isr_overwrites_mailbox:
  "vctcxo_tamer_pkt (vctcxo_tamer_isr cfg hw2 (vctcxo_tamer_isr cfg hw1 s)) =
     \<lparr>ready = True,
      pps_1s_error = vctcxo_tamer_read_count hw2 (VT_ERR_1S_ADDR cfg),
      pps_10s_error = vctcxo_tamer_read_count hw2 (VT_ERR_10S_ADDR cfg),
      pps_100s_error = vctcxo_tamer_read_count hw2 (VT_ERR_100S_ADDR cfg),
      pps_1s_error_flag = (vctcxo_tamer_read hw2 (VT_STAT_ADDR cfg) AND VT_STAT_ERR_1S \<noteq> 0),
      pps_10s_error_flag = (vctcxo_tamer_read hw2 (VT_STAT_ADDR cfg) AND VT_STAT_ERR_10S \<noteq> 0),
      pps_100s_error_flag = (vctcxo_tamer_read hw2 (VT_STAT_ADDR cfg) AND VT_STAT_ERR_100S \<noteq> 0)\<rparr>"
  by (simp add: vctcxo_tamer_isr_def vctcxo_tamer_reset_counters_def vctcxo_tamer_enable_isr_def
      vctcxo_tamer_clear_isr_def vctcxo_tamer_write_def Let_def)

section \<open>The phases of the calibration\<close>

text \<open>
  C4: the state machine block moves the phase to its successor in the order
  \<^verbatim>\<open>COARSE_TUNE_MIN\<close>, \<^verbatim>\<open>COARSE_TUNE_MAX\<close>, \<^verbatim>\<open>COARSE_TUNE_DONE\<close>,
  \<^verbatim>\<open>FINE_TUNE\<close>, \<^verbatim>\<open>FINE_TUNE\<close>, ... exactly when the mailbox is ready, and it
  clears \<open>ready\<close>; without a ready sample it changes nothing. The interrupt handler
  does not touch the phase. The edge block sets the phase to \<^verbatim>\<open>COARSE_TUNE_MIN\<close> on
  every change of the enable signal, whatever the phase was. For a whole loop
  iteration: after a disable edge the phase is \<^verbatim>\<open>COARSE_TUNE_MIN\<close>; after an enable
  edge the \<^verbatim>\<open>COARSE_TUNE_MIN\<close> step has already run in the same iteration; without an
  edge the phase advances by one step if a sample was produced or was waiting, and
  stays otherwise.
\<close>

theorem phase_transitions:
  "tune_state (calibration_fsm cfg s) =
     (if ready (vctcxo_tamer_pkt s) then phase_successor (tune_state s) else tune_state s) \<and>
   \<not> ready (vctcxo_tamer_pkt (calibration_fsm cfg s)) \<and>
   calibration_fsm cfg (s\<lparr>vctcxo_tamer_pkt := (vctcxo_tamer_pkt s)\<lparr>ready := False\<rparr>\<rparr>) =
     s\<lparr>vctcxo_tamer_pkt := (vctcxo_tamer_pkt s)\<lparr>ready := False\<rparr>\<rparr> \<and>
   tune_state (vctcxo_tamer_isr cfg hw s) = tune_state s \<and>
   tune_state (enable_edge cfg s) =
     (if vctcxo_tamer_en_old s \<noteq> vctcxo_tamer_en s then COARSE_TUNE_MIN else tune_state s) \<and>
   tune_state (main_loop_body cfg inp s) =
     (if vctcxo_tamer_en s \<noteq> ucast (vctcxo_tamer_status inp AND 1)
      then (if (ucast (vctcxo_tamer_status inp AND 1) :: u8) = 1
            then phase_successor COARSE_TUNE_MIN
            else COARSE_TUNE_MIN)
      else if vctcxo_tamer_read (hw_regs inp) (VT_STAT_ADDR cfg) = 0 \<and>
              \<not> ready (vctcxo_tamer_pkt s)
      then tune_state s
      else phase_successor (tune_state s))"
proof -
  define s3 where "s3 =
    (if vctcxo_tamer_read (hw_regs inp) (VT_STAT_ADDR cfg) \<noteq> 0
     then vctcxo_tamer_isr cfg (hw_regs inp)
            (s\<lparr>vctcxo_tamer_en_old := vctcxo_tamer_en s,
               vctcxo_tamer_en := ucast (vctcxo_tamer_status inp AND 1)\<rparr>)
     else s\<lparr>vctcxo_tamer_en_old := vctcxo_tamer_en s,
            vctcxo_tamer_en := ucast (vctcxo_tamer_status inp AND 1)\<rparr>)"
  have body: "main_loop_body cfg inp s = calibration_fsm cfg (enable_edge cfg s3)"
    by (simp add: main_loop_body_def s3_def Let_def)
  have t: "tune_state s3 = tune_state s"
    by (simp add: s3_def)
  have e: "vctcxo_tamer_en s3 = ucast (vctcxo_tamer_status inp AND 1)"
    by (simp add: s3_def isr_frame)
  have o: "vctcxo_tamer_en_old s3 = vctcxo_tamer_en s"
    by (simp add: s3_def isr_frame)
  have r: "ready (vctcxo_tamer_pkt s3) \<longleftrightarrow>
      \<not> (vctcxo_tamer_read (hw_regs inp) (VT_STAT_ADDR cfg) = 0 \<and> \<not> ready (vctcxo_tamer_pkt s))"
    by (simp add: s3_def isr_frame)
  have "tune_state (main_loop_body cfg inp s) =
     (if vctcxo_tamer_en s \<noteq> ucast (vctcxo_tamer_status inp AND 1)
      then (if (ucast (vctcxo_tamer_status inp AND 1) :: u8) = 1
            then phase_successor COARSE_TUNE_MIN
            else COARSE_TUNE_MIN)
      else if vctcxo_tamer_read (hw_regs inp) (VT_STAT_ADDR cfg) = 0 \<and>
              \<not> ready (vctcxo_tamer_pkt s)
      then tune_state s
      else phase_successor (tune_state s))"
    unfolding body fsm_phase edge_phase edge_ready t e o r
    by (simp del: phase_successor.simps)
  moreover have "calibration_fsm cfg (s\<lparr>vctcxo_tamer_pkt := (vctcxo_tamer_pkt s)\<lparr>ready := False\<rparr>\<rparr>) =
     s\<lparr>vctcxo_tamer_pkt := (vctcxo_tamer_pkt s)\<lparr>ready := False\<rparr>\<rparr>"
    by (simp add: calibration_fsm_def)
  ultimately show ?thesis
    by (simp add: fsm_phase fsm_ready edge_phase del: phase_successor.simps)
qed

section \<open>The proportional correction of the fine phase\<close>

lemma fine_examples:
  "float_of_int 10 = 10"
  "float_of_int 7 = 7"
  "float_of_int (- 150) = - 150"
  "fdiv 65535 (- 150) = - (14316339 / 32768)"
  "fmul 10 (- (14316339 / 32768)) = - 4369"
  "fmul 7 (- (14316339 / 32768)) = - (12526797 / 4096)"
  using binary32_round_near [of 3 10 10485760]
    binary32_round_near [of 2 7 14680064]
    binary32_round_near [of 7 "- 150" "- 9830400"]
    binary32_round_near [of 8 "65535 / (- 150)" "- 14316339"]
    binary32_round_near [of 12 "10 * (- (14316339 / 32768))" "- 8947712"]
    binary32_round_near [of 11 "7 * (- (14316339 / 32768))" "- 12526797"]
  by (simp_all add: float_of_int_def fdiv_def fmul_def)

lemma fine_lround_examples:
  "lround_away (- 4369) = - 4369"
  "lround_away (- (12526797 / 4096)) = - 3058"
  using lround_away_near [of "- 4369" "- 4369"]
    lround_away_near [of "- (12526797 / 4096)" "- 3058"]
  by simp_all

lemma adjust_frame:
  "adjust_trim_dac cfg e slp scale s =
     s\<lparr>vctcxo_trim_dac_value := vctcxo_trim_dac_value (adjust_trim_dac cfg e slp scale s),
       hw_writes := hw_writes s @
         [(VT_DAC_TUNNED_VAL_ADDR0 cfg,
           ucast (drop_bit 0 (vctcxo_trim_dac_value (adjust_trim_dac cfg e slp scale s) AND 0x00FF))),
          (VT_DAC_TUNNED_VAL_ADDR1 cfg,
           ucast (drop_bit 8 (vctcxo_trim_dac_value (adjust_trim_dac cfg e slp scale s) AND 0xFF00)))]\<rparr>"
  by (simp add: adjust_trim_dac_def Let_def vctcxo_trim_dac_write_def vctcxo_tamer_write_def)

lemmas fine_eval = fw_eval fine_examples fine_lround_examples fine_tune_example_def c_div_def

lemma mask_disjoint:
  fixes c m v :: u8
  assumes "v AND m = 0"
  shows "((c AND NOT m) OR v) AND m = 0"
  using assms
  by (simp add: bit_eq_iff bit_and_iff bit_or_iff bit_not_iff) blast

text \<open>
  C3, as the code computes it. For every error count and slope and for the scales 1, 10
  and 100, the code that \<^verbatim>\<open>adjust_trim_dac\<close> stores in the trim-DAC cache and
  writes to the two DAC registers (low byte first) lies in \<open>[0, DacMax]\<close>, for a
  \<open>DacMax\<close> of at most 65535; nothing else of the state changes. The code is
  \<open>current - round (e * slope) / scale\<close> clamped into \<open>[0, DacMax]\<close>, where the product is
  the single-precision product of the error converted to single precision and the
  slope, rounded half away from zero, and the division truncates; this holds whenever
  the rounded product fits the 32-bit \<^verbatim>\<open>long\<close> and the subtraction does not
  overflow \<^verbatim>\<open>int32_t\<close>.
\<close>

theorem adjust_trim_dac_clamped:
  assumes "0 \<le> CONFIG_DAC_MAX cfg" and "CONFIG_DAC_MAX cfg \<le> 65535"
    and sc: "scale = 1 \<or> scale = 10 \<or> scale = 100"
  shows
    "let r = lround_away (fmul (float_of_int (sint e)) slp);
         v = uint (vctcxo_trim_dac_value s) - c_div r scale;
         s' = adjust_trim_dac cfg e slp scale s;
         code = vctcxo_trim_dac_value s'
     in 0 \<le> uint code \<and> uint code \<le> CONFIG_DAC_MAX cfg \<and>
        (- (2 ^ 31) \<le> r \<and> r < 2 ^ 31 \<and> v < 2 ^ 31 \<longrightarrow>
           uint code = max 0 (min (CONFIG_DAC_MAX cfg) v)) \<and>
        s' = s\<lparr>vctcxo_trim_dac_value := code,
               hw_writes := hw_writes s @
                 [(VT_DAC_TUNNED_VAL_ADDR0 cfg, ucast (drop_bit 0 (code AND 0x00FF))),
                  (VT_DAC_TUNNED_VAL_ADDR1 cfg, ucast (drop_bit 8 (code AND 0xFF00)))]\<rparr>"
proof -
  define P where "P = fmul (float_of_int (sint e)) slp"
  define r where "r = lround_away P"
  define nv where "nv = (ucast (vctcxo_trim_dac_value s) :: i32) -
    word_of_int (c_div (sint (lroundf cfg P)) scale)"
  define cl where "cl = (if CONFIG_DAC_MAX cfg < sint nv then word_of_int (CONFIG_DAC_MAX cfg)
    else if sint nv < 0 then 0 else nv)"
  define code where "code = vctcxo_trim_dac_value (adjust_trim_dac cfg e slp scale s)"
  have c: "code = ucast cl"
    by (simp add: code_def adjust_trim_dac_def Let_def vctcxo_trim_dac_write_def
        vctcxo_tamer_write_def nv_def cl_def P_def)
  have u: "uint code = max 0 (min (CONFIG_DAC_MAX cfg) (sint nv))"
    unfolding c cl_def using assms(1,2) by (rule clamp_code)
  from u assms have range: "0 \<le> uint code" "uint code \<le> CONFIG_DAC_MAX cfg"
    by (simp_all add: max_def min_def)
  have formula: "uint code = max 0 (min (CONFIG_DAC_MAX cfg)
      (uint (vctcxo_trim_dac_value s) - c_div r scale))"
    if r: "- (2 ^ 31) \<le> r" "r < 2 ^ 31"
      and v: "uint (vctcxo_trim_dac_value s) - c_div r scale < 2 ^ 31"
  proof -
    have "lroundf cfg P = word_of_int r"
      using r unfolding r_def by (rule lroundf_in_range)
    moreover have "signed_take_bit 31 r = r"
      using r by (intro signed_take_bit_int_eq_self) simp_all
    ultimately have sr: "sint (lroundf cfg P) = r"
      by (simp add: sint_sbintrunc')
    from r have "- 2147483648 \<le> r" "r < 2147483648"
      by simp_all
    with c_div_between [OF sc, of r]
    have "- 2147483648 \<le> c_div r scale" "c_div r scale < 2147483648"
      by linarith+
    then have q: "- (2 ^ 31) \<le> c_div r scale" "c_div r scale < 2 ^ 31"
      by simp_all
    from q v have "sint nv = uint (vctcxo_trim_dac_value s) - c_div r scale"
      unfolding nv_def sr by (rule adjust_new_value)
    with u show ?thesis
      by simp
  qed
  from range formula adjust_frame [of cfg e slp scale s] show ?thesis
    unfolding Let_def code_def r_def P_def by blast
qed


text \<open>
  The theorem with the slope of the specification's third scenario, trim code 43690,
  error 7 and scale 10: the product \<open>-3058.3\<close> rounds to \<open>-3058\<close>, the truncating
  division gives \<open>-305\<close>, and the new code is 43995.
\<close>

theorem adjust_trim_dac_clamped_witness:
  "0 \<le> CONFIG_DAC_MAX example_config \<and> CONFIG_DAC_MAX example_config \<le> 65535 \<and>
   ((10 :: int) = 1 \<or> (10 :: int) = 10 \<or> (10 :: int) = 100) \<and>
   uint (vctcxo_trim_dac_value
     (adjust_trim_dac example_config 7 (- (14316339 / 32768)) 10
        (fine_tune_example 43690 (- (14316339 / 32768)) (10, 7, 3) (False, True, False)))) = 43995"
proof -
  have h1: "0 \<le> CONFIG_DAC_MAX example_config"
    by (simp add: example_config_def)
  have h2: "CONFIG_DAC_MAX example_config \<le> 65535"
    by (simp add: example_config_def)
  have h3: "(10 :: int) = 1 \<or> (10 :: int) = 10 \<or> (10 :: int) = 100"
    by simp
  from adjust_trim_dac_clamped [OF h1 h2 h3, of 7 "- (14316339 / 32768)"
      "fine_tune_example 43690 (- (14316339 / 32768)) (10, 7, 3) (False, True, False)"]
  have "uint (vctcxo_trim_dac_value
     (adjust_trim_dac example_config 7 (- (14316339 / 32768)) 10
        (fine_tune_example 43690 (- (14316339 / 32768)) (10, 7, 3) (False, True, False)))) = 43995"
    by (simp add: Let_def fine_examples fine_lround_examples fine_tune_example_def c_div_def
        example_config_def)
  with h1 h2 h3 show ?thesis
    by blast
qed

text \<open>
  C3 as the specification states it, with the real-valued product, fails for the error
  \<open>-174\<close>, the slope \<open>5932185 / 16384\<close> (the single-precision number nearest to
  \<open>65535 / 181\<close>), scale 1 and trim code 0: the exact product is \<open>-63000.4998...\<close>, which
  rounds to \<open>-63000\<close>, while its single-precision value is \<open>-63000.5\<close>, which
  \<^verbatim>\<open>lroundf\<close> takes to \<open>-63001\<close>.
\<close>

theorem adjust_trim_dac_real_valued_counterexample:
  "uint (vctcxo_trim_dac_value
     (adjust_trim_dac example_config (- 174) (5932185 / 16384) 1
        (fine_tune_example 0 (5932185 / 16384) (- 174, 0, 0) (True, False, False)))) = 63001 \<and>
   spec_new_code 65535 0 (- 174) (5932185 / 16384) 1 = 63000"
  by (simp add: fine_eval spec_new_code_def spec_clamp_def)

text \<open>
  C6, as the code does it: in the \<^verbatim>\<open>FINE_TUNE\<close> phase a consumed sample leads to at
  most one correction, and to exactly one if and only if one of the three window flags
  is set. A consumed sample leads to at most one call of
  \<^verbatim>\<open>adjust_trim_dac\<close>: with the short-window error and scale 1 if the short-window
  flag is set; otherwise with the medium-window error and scale 10 if the medium-window
  flag is set; otherwise with the long-window error and scale 100 if the long-window
  flag is set. When a flag is set, the iteration writes the two DAC registers exactly
  once, followed by the two control-register writes that release the counter reset and
  enable the interrupt; when no flag is set, it writes the control register only. The
  phase stays \<^verbatim>\<open>FINE_TUNE\<close>.
\<close>

theorem fine_tune_priority:
  assumes "tune_state s = FINE_TUNE" and "ready (vctcxo_tamer_pkt s)"
  shows
    "let pkt = vctcxo_tamer_pkt s;
         s1 = s\<lparr>vctcxo_tamer_pkt := pkt\<lparr>ready := False\<rparr>\<rparr>;
         slp = slope (trimdac_cal_line s);
         s2 = (if pps_1s_error_flag pkt then adjust_trim_dac cfg (pps_1s_error pkt) slp 1 s1
               else if pps_10s_error_flag pkt then adjust_trim_dac cfg (pps_10s_error pkt) slp 10 s1
               else if pps_100s_error_flag pkt
               then adjust_trim_dac cfg (pps_100s_error pkt) slp 100 s1
               else s1);
         s' = calibration_fsm cfg s;
         code = vctcxo_trim_dac_value s';
         c1 = vctcxo_tamer_ctrl_reg s AND NOT VT_CTRL_RESET;
         c2 = c1 OR VT_CTRL_IRQ_EN
     in s' = vctcxo_tamer_enable_isr cfg True (vctcxo_tamer_reset_counters cfg False s2) \<and>
        tune_state s' = FINE_TUNE \<and>
        hw_writes s' = hw_writes s @
          (if pps_1s_error_flag pkt \<or> pps_10s_error_flag pkt \<or> pps_100s_error_flag pkt
           then [(VT_DAC_TUNNED_VAL_ADDR0 cfg, ucast (drop_bit 0 (code AND 0x00FF))),
                 (VT_DAC_TUNNED_VAL_ADDR1 cfg, ucast (drop_bit 8 (code AND 0xFF00)))]
           else []) @
          [(VT_CTRL_ADDR cfg, c1), (VT_CTRL_ADDR cfg, c2)]"
proof -
  define pkt where "pkt = vctcxo_tamer_pkt s"
  define s1 where "s1 = s\<lparr>vctcxo_tamer_pkt := pkt\<lparr>ready := False\<rparr>\<rparr>"
  define slp where "slp = slope (trimdac_cal_line s)"
  define s2 where "s2 =
    (if pps_1s_error_flag pkt then adjust_trim_dac cfg (pps_1s_error pkt) slp 1 s1
     else if pps_10s_error_flag pkt then adjust_trim_dac cfg (pps_10s_error pkt) slp 10 s1
     else if pps_100s_error_flag pkt then adjust_trim_dac cfg (pps_100s_error pkt) slp 100 s1
     else s1)"
  define s' where "s' = calibration_fsm cfg s"
  have step: "s' = vctcxo_tamer_enable_isr cfg True (vctcxo_tamer_reset_counters cfg False s2)"
    using assms
    by (simp add: s'_def s2_def s1_def slp_def pkt_def calibration_fsm_def Let_def)
  have phase: "tune_state s' = FINE_TUNE"
    using assms by (simp add: step s2_def s1_def)
  have rel: "hw_writes s' = hw_writes s2 @
      [(VT_CTRL_ADDR cfg, vctcxo_tamer_ctrl_reg s2 AND NOT VT_CTRL_RESET),
       (VT_CTRL_ADDR cfg, (vctcxo_tamer_ctrl_reg s2 AND NOT VT_CTRL_RESET) OR VT_CTRL_IRQ_EN)]"
    "vctcxo_trim_dac_value s' = vctcxo_trim_dac_value s2"
    by (simp_all add: step vctcxo_tamer_enable_isr_def vctcxo_tamer_reset_counters_def
        vctcxo_tamer_write_def)
  have adj: "vctcxo_tamer_ctrl_reg (adjust_trim_dac cfg e slp sc s1) = vctcxo_tamer_ctrl_reg s"
    "hw_writes (adjust_trim_dac cfg e slp sc s1) = hw_writes s @
       [(VT_DAC_TUNNED_VAL_ADDR0 cfg,
         ucast (drop_bit 0 (vctcxo_trim_dac_value (adjust_trim_dac cfg e slp sc s1) AND 0x00FF))),
        (VT_DAC_TUNNED_VAL_ADDR1 cfg,
         ucast (drop_bit 8 (vctcxo_trim_dac_value (adjust_trim_dac cfg e slp sc s1) AND 0xFF00)))]"
    for e sc
    by (subst adjust_frame, simp add: s1_def)+
  have c: "vctcxo_tamer_ctrl_reg s2 = vctcxo_tamer_ctrl_reg s"
    by (simp add: s2_def adj(1)) (simp add: s1_def)
  have w: "hw_writes s2 = hw_writes s @
      (if pps_1s_error_flag pkt \<or> pps_10s_error_flag pkt \<or> pps_100s_error_flag pkt
       then [(VT_DAC_TUNNED_VAL_ADDR0 cfg, ucast (drop_bit 0 (vctcxo_trim_dac_value s2 AND 0x00FF))),
             (VT_DAC_TUNNED_VAL_ADDR1 cfg, ucast (drop_bit 8 (vctcxo_trim_dac_value s2 AND 0xFF00)))]
       else [])"
    by (simp add: s2_def adj(2)) (simp add: s1_def)
  from step phase rel c w show ?thesis
    unfolding Let_def s'_def [symmetric] pkt_def [symmetric] s1_def [symmetric]
      slp_def [symmetric] s2_def [symmetric]
    by simp
qed

text \<open>
  All three flags set, short-window error 10, trim code 43690 and the slope of the
  specification's third scenario: the short window wins and the DAC receives
  \<open>48059 = 0xBBBB\<close>, as in the specification's fourth scenario.
\<close>

theorem fine_tune_priority_witness:
  "tune_state (fine_tune_example 43690 (- (14316339 / 32768)) (10, 7, 3) (True, True, True)) =
     FINE_TUNE \<and>
   ready (vctcxo_tamer_pkt
     (fine_tune_example 43690 (- (14316339 / 32768)) (10, 7, 3) (True, True, True))) \<and>
   hw_writes (calibration_fsm example_config
     (fine_tune_example 43690 (- (14316339 / 32768)) (10, 7, 3) (True, True, True))) =
     [(0x20, 0xBB), (0x21, 0xBB), (0x00, 0x40), (0x00, 0x42)] \<and>
   vctcxo_trim_dac_value (calibration_fsm example_config
     (fine_tune_example 43690 (- (14316339 / 32768)) (10, 7, 3) (True, True, True))) = 48059"
proof -
  have h1: "tune_state (fine_tune_example 43690 (- (14316339 / 32768)) (10, 7, 3)
      (True, True, True)) = FINE_TUNE"
    by (simp add: fine_tune_example_def)
  have h2: "ready (vctcxo_tamer_pkt
      (fine_tune_example 43690 (- (14316339 / 32768)) (10, 7, 3) (True, True, True)))"
    by (simp add: fine_tune_example_def)
  note t = fine_tune_priority [OF h1 h2, of example_config, unfolded Let_def]
  from t have s': "calibration_fsm example_config
      (fine_tune_example 43690 (- (14316339 / 32768)) (10, 7, 3) (True, True, True)) =
    vctcxo_tamer_enable_isr example_config True (vctcxo_tamer_reset_counters example_config False
      (adjust_trim_dac example_config 10 (- (14316339 / 32768)) 1
        ((fine_tune_example 43690 (- (14316339 / 32768)) (10, 7, 3) (True, True, True))
          \<lparr>vctcxo_tamer_pkt := (vctcxo_tamer_pkt
              (fine_tune_example 43690 (- (14316339 / 32768)) (10, 7, 3) (True, True, True)))
            \<lparr>ready := False\<rparr>\<rparr>)))"
    by (simp add: fine_tune_example_def)
  have "hw_writes (calibration_fsm example_config
     (fine_tune_example 43690 (- (14316339 / 32768)) (10, 7, 3) (True, True, True))) =
     [(0x20, 0xBB), (0x21, 0xBB), (0x00, 0x40), (0x00, 0x42)] \<and>
   vctcxo_trim_dac_value (calibration_fsm example_config
     (fine_tune_example 43690 (- (14316339 / 32768)) (10, 7, 3) (True, True, True))) = 48059"
    unfolding s'
    by (simp add: adjust_trim_dac_def vctcxo_trim_dac_write_def vctcxo_tamer_write_def
        vctcxo_tamer_reset_counters_def vctcxo_tamer_enable_isr_def lroundf_def Let_def
        example_config_def VT_CTRL_RESET_def VT_CTRL_IRQ_EN_def fine_examples
        fine_lround_examples fine_tune_example_def c_div_def)
  with h1 h2 show ?thesis
    by blast
qed

text \<open>
  C6 as the specification states it, with exactly one correction for every consumed
  sample, fails for a sample that has none of the three window flags set: the
  \<^verbatim>\<open>if\<close> chain has no final \<^verbatim>\<open>else\<close>, so no correction is applied. With the
  trim code 30000 and the error counts 25, -4 and 9, the sample is consumed, the trim
  code stays 30000 and the only writes are the two to the control register.
\<close>

theorem fine_tune_no_correction_counterexample:
  "tune_state (fine_tune_example 30000 (- (14316339 / 32768)) (25, - 4, 9) (False, False, False)) =
     FINE_TUNE \<and>
   ready (vctcxo_tamer_pkt
     (fine_tune_example 30000 (- (14316339 / 32768)) (25, - 4, 9) (False, False, False))) \<and>
   \<not> ready (vctcxo_tamer_pkt (calibration_fsm example_config
     (fine_tune_example 30000 (- (14316339 / 32768)) (25, - 4, 9) (False, False, False)))) \<and>
   vctcxo_trim_dac_value (calibration_fsm example_config
     (fine_tune_example 30000 (- (14316339 / 32768)) (25, - 4, 9) (False, False, False))) = 30000 \<and>
   hw_writes (calibration_fsm example_config
     (fine_tune_example 30000 (- (14316339 / 32768)) (25, - 4, 9) (False, False, False))) =
     [(0x00, 0x40), (0x00, 0x42)]"
  by (simp add: calibration_fsm_def fine_tune_example_def example_config_def Let_def
      vctcxo_tamer_reset_counters_def vctcxo_tamer_enable_isr_def vctcxo_tamer_write_def
      VT_CTRL_RESET_def VT_CTRL_IRQ_EN_def)

text \<open>
  C10: in the \<^verbatim>\<open>FINE_TUNE\<close> phase, a consumed sample with none of the three window
  flags set changes only the ready flag, the control-register cache and the write log:
  the log grows by exactly two control-register writes, the first with the reset bit
  cleared and the second with the interrupt-enable bit set as well. The DAC registers
  are not written, the trim-DAC cache is unchanged and the phase stays
  \<^verbatim>\<open>FINE_TUNE\<close>.
\<close>

theorem fine_tune_no_flag:
  assumes "tune_state s = FINE_TUNE" and "ready (vctcxo_tamer_pkt s)"
    and "\<not> pps_1s_error_flag (vctcxo_tamer_pkt s)"
    and "\<not> pps_10s_error_flag (vctcxo_tamer_pkt s)"
    and "\<not> pps_100s_error_flag (vctcxo_tamer_pkt s)"
  shows
    "let c1 = vctcxo_tamer_ctrl_reg s AND NOT VT_CTRL_RESET;
         c2 = c1 OR VT_CTRL_IRQ_EN;
         s' = calibration_fsm cfg s
     in s' = s\<lparr>vctcxo_tamer_ctrl_reg := c2,
               vctcxo_tamer_pkt := (vctcxo_tamer_pkt s)\<lparr>ready := False\<rparr>,
               hw_writes := hw_writes s @ [(VT_CTRL_ADDR cfg, c1), (VT_CTRL_ADDR cfg, c2)]\<rparr> \<and>
        vctcxo_trim_dac_value s' = vctcxo_trim_dac_value s \<and>
        tune_state s' = FINE_TUNE \<and>
        c2 AND VT_CTRL_RESET = 0 \<and>
        c2 AND VT_CTRL_IRQ_EN = VT_CTRL_IRQ_EN"
proof -
  have "VT_CTRL_IRQ_EN AND VT_CTRL_RESET = 0"
    by (simp add: VT_CTRL_RESET_def VT_CTRL_IRQ_EN_def)
  then have "((c AND NOT VT_CTRL_RESET) OR VT_CTRL_IRQ_EN) AND VT_CTRL_RESET = 0" for c :: u8
    by (rule mask_disjoint)
  moreover have "((c AND NOT VT_CTRL_RESET) OR VT_CTRL_IRQ_EN) AND VT_CTRL_IRQ_EN = VT_CTRL_IRQ_EN"
    for c :: u8
    by (rule mask_facts(2))
  ultimately show ?thesis
    using assms
    by (simp add: calibration_fsm_def Let_def vctcxo_tamer_write_def
        vctcxo_tamer_reset_counters_def vctcxo_tamer_enable_isr_def)
qed

text \<open>No flag set, trim code 43690: only the control register is written.\<close>

theorem fine_tune_no_flag_witness:
  "tune_state (fine_tune_example 43690 (- (14316339 / 32768)) (10, 7, 3) (False, False, False)) =
     FINE_TUNE \<and>
   ready (vctcxo_tamer_pkt
     (fine_tune_example 43690 (- (14316339 / 32768)) (10, 7, 3) (False, False, False))) \<and>
   \<not> pps_1s_error_flag (vctcxo_tamer_pkt
     (fine_tune_example 43690 (- (14316339 / 32768)) (10, 7, 3) (False, False, False))) \<and>
   \<not> pps_10s_error_flag (vctcxo_tamer_pkt
     (fine_tune_example 43690 (- (14316339 / 32768)) (10, 7, 3) (False, False, False))) \<and>
   \<not> pps_100s_error_flag (vctcxo_tamer_pkt
     (fine_tune_example 43690 (- (14316339 / 32768)) (10, 7, 3) (False, False, False))) \<and>
   hw_writes (calibration_fsm example_config
     (fine_tune_example 43690 (- (14316339 / 32768)) (10, 7, 3) (False, False, False))) =
     [(0x00, 0x40), (0x00, 0x42)] \<and>
   vctcxo_trim_dac_value (calibration_fsm example_config
     (fine_tune_example 43690 (- (14316339 / 32768)) (10, 7, 3) (False, False, False))) = 43690"
proof -
  define s where "s = fine_tune_example 43690 (- (14316339 / 32768)) (10, 7, 3) (False, False, False)"
  have h: "tune_state s = FINE_TUNE" "ready (vctcxo_tamer_pkt s)"
    "\<not> pps_1s_error_flag (vctcxo_tamer_pkt s)" "\<not> pps_10s_error_flag (vctcxo_tamer_pkt s)"
    "\<not> pps_100s_error_flag (vctcxo_tamer_pkt s)"
    by (simp_all add: s_def fine_tune_example_def)
  from fine_tune_no_flag [OF h, of example_config]
  have "hw_writes (calibration_fsm example_config s) = [(0x00, 0x40), (0x00, 0x42)] \<and>
    vctcxo_trim_dac_value (calibration_fsm example_config s) = 43690"
    by (simp add: Let_def s_def fine_tune_example_def example_config_def VT_CTRL_RESET_def
        VT_CTRL_IRQ_EN_def)
  with h show ?thesis
    unfolding s_def by blast
qed


end
